theory Spec2Isabelle
  imports Main "HOL-Library.Sublist"
begin

section \<open>Scene data of the render script\<close>

text \<open>
  The script \<^verbatim>\<open>blender_render_script.py\<close> works on Blender's scene data through
  the \<^verbatim>\<open>bpy\<close> interface. The part of that data the script reads and writes is made
  explicit here.

  A node of a material's node tree is identified by its position in the tree's node
  collection: \<^verbatim>\<open>nodes.new\<close> appends, and the script never removes a node, so a
  position keeps denoting the same node. A socket is identified by its name on its node.
  A link joins an output socket of one node to an input socket of another.
\<close>

record node =
  nd_type :: string
  nd_name :: string
  nd_location :: "int \<times> int"
  nd_inputs :: "string list"
  nd_image :: "nat option"

record link =
  from_node :: nat
  from_socket :: string
  to_node :: nat
  to_socket :: string

record material =
  mat_name :: string
  use_nodes :: bool
  nodes :: "node list"
  links :: "link list"

text \<open>
  An image datablock of \<^verbatim>\<open>bpy.data.images\<close>; a texture node refers to one by its
  position in that collection (\<open>nd_image\<close>).
\<close>

record image_asset =
  filepath :: string
  colorspace :: string

text \<open>
  What the script asks of the world outside the scene: \<^verbatim>\<open>os.path.exists\<close>;
  whether \<^verbatim>\<open>bpy.data.images.load\<close> can read a file (it raises otherwise) and
  the color space Blender gives the image it loads; the color space names of Blender's
  color configuration (assigning a name that is not among them raises); and what Blender
  does to a material's tree when \<^verbatim>\<open>use_nodes\<close> is switched on (a material that
  never had a tree gets the default one).
\<close>

record host =
  path_exists :: "string \<Rightarrow> bool"
  load_ok :: "string \<Rightarrow> bool"
  loaded_colorspace :: "string \<Rightarrow> string"
  colorspaces :: "string list"
  default_tree :: "material \<Rightarrow> material"

subsection \<open>The node and link collections\<close>

fun first_index :: "('a \<Rightarrow> bool) \<Rightarrow> 'a list \<Rightarrow> nat option" where
  "first_index P [] = None"
| "first_index P (x # xs) = (if P x then Some 0 else map_option Suc (first_index P xs))"

text \<open>
  \<^verbatim>\<open>nodes.new(type=...)\<close>: the identifiers the script passes, with the node type
  and the input sockets Blender gives the new node. The node is appended to the collection.

  Blender keeps node names unique within a tree by appending a numeric suffix
  (\<^verbatim>\<open>.001\<close>) to a name that is taken. The script reads a node name at one place
  only, the prefix test of line 130, which a suffix does not change; names are therefore
  kept as the script assigns them.
\<close>

definition type_of_idname :: "string \<Rightarrow> string" where
  "type_of_idname idname =
     (if idname = ''ShaderNodeTexImage'' then ''TEX_IMAGE''
      else if idname = ''ShaderNodeNormalMap'' then ''NORMAL_MAP''
      else idname)"

definition inputs_of_idname :: "string \<Rightarrow> string list" where
  "inputs_of_idname idname =
     (if idname = ''ShaderNodeTexImage'' then [''Vector'']
      else if idname = ''ShaderNodeNormalMap'' then [''Strength'', ''Color'']
      else [])"

definition nodes_new :: "string \<Rightarrow> node list \<Rightarrow> node list" where
  "nodes_new idname ns =
     ns @ [\<lparr>nd_type = type_of_idname idname, nd_name = idname, nd_location = (0, 0),
            nd_inputs = inputs_of_idname idname, nd_image = None\<rparr>]"

text \<open>
  \<^verbatim>\<open>links.new(output, input)\<close>: an input socket of the nodes involved holds one link,
  so the new link replaces whatever was linked to that input before.
\<close>

definition links_new :: "nat \<times> string \<Rightarrow> nat \<times> string \<Rightarrow> link list \<Rightarrow> link list" where
  "links_new out inp ls =
     filter (\<lambda>l. \<not> (to_node l = fst inp \<and> to_socket l = snd inp)) ls
       @ [\<lparr>from_node = fst out, from_socket = snd out, to_node = fst inp, to_socket = snd inp\<rparr>]"

text \<open>
  A link's \<^verbatim>\<open>from_node\<close> is a node of the same tree; a position outside the collection
  denotes no node and so has no type.
\<close>

definition node_has_type :: "node list \<Rightarrow> nat \<Rightarrow> string \<Rightarrow> bool" where
  "node_has_type ns i ty = (i < length ns \<and> nd_type (ns ! i) = ty)"

definition startswith :: "string \<Rightarrow> string \<Rightarrow> bool" where
  "startswith s p = prefix p s"

section \<open>replace_texture_in_nodes\<close>

subsection \<open>Lines 51--60: the Principled BSDF node\<close>

definition find_principled :: "node list \<Rightarrow> nat option" where
  "find_principled ns = first_index (\<lambda>n. nd_type n = ''BSDF_PRINCIPLED'') ns"

subsection \<open>Lines 72--106: the input a texture type goes to\<close>

definition input_mapping :: "string \<Rightarrow> string option" where
  "input_mapping = map_of
     [(''diffuse'', ''Base Color''),
      (''normal'', ''Normal''),
      (''roughness'', ''Roughness''),
      (''specular'', ''Specular IOR Level'')]"

definition fallback_mapping :: "string \<Rightarrow> string list" where
  "fallback_mapping tex_key =
     (case map_of
        [(''specular'', [''Metallic'', ''Specular'', ''Specular IOR Level'']),
         (''diffuse'', [''Base Color'', ''Albedo'']),
         (''roughness'', [''Roughness'']),
         (''normal'', [''Normal''])] tex_key of
        None \<Rightarrow> [] | Some fs \<Rightarrow> fs)"

text \<open>
  \<open>None\<close> stands for the two places where the function returns without a value:
  an unknown texture type (line 82) and no input found (line 106).
\<close>

definition resolve_target_input :: "string \<Rightarrow> string list \<Rightarrow> string option" where
  "resolve_target_input tex_key inps =
     (case input_mapping tex_key of
        None \<Rightarrow> None
      | Some target_input \<Rightarrow>
          if target_input \<notin> set inps
          then find (\<lambda>fallback. fallback \<in> set inps) (fallback_mapping tex_key)
          else Some target_input)"

subsection \<open>Lines 108--149: the texture node and its connection\<close>

text \<open>
  Lines 108--115: the first link into the target input socket that comes from an image
  texture node.
\<close>

definition connected_texture_node :: "material \<Rightarrow> nat \<Rightarrow> string \<Rightarrow> nat option" where
  "connected_texture_node m pn target_input =
     (if target_input \<in> set (nd_inputs (nodes m ! pn))
      then map_option from_node
             (find (\<lambda>l. node_has_type (nodes m) (from_node l) ''TEX_IMAGE'')
                (filter (\<lambda>l. to_node l = pn \<and> to_socket l = target_input) (links m)))
      else None)"

text \<open>Lines 117--121: a new image texture node when none was found.\<close>

definition new_texture_node :: "string \<Rightarrow> material \<Rightarrow> material \<times> nat" where
  "new_texture_node tex_key m =
     (let ns = nodes_new ''ShaderNodeTexImage'' (nodes m);
          i = length (nodes m)
      in (m\<lparr>nodes := ns[i := (ns ! i)\<lparr>nd_location := (- 400, 0 - int (length ns) * 50),
                                       nd_name := tex_key @ ''_texture''\<rparr>]\<rparr>, i))"

definition ensure_texture_node :: "material \<Rightarrow> nat \<Rightarrow> string \<Rightarrow> string \<Rightarrow> material \<times> nat" where
  "ensure_texture_node m pn tex_key target_input =
     (case connected_texture_node m pn target_input of
        Some i \<Rightarrow> (m, i)
      | None \<Rightarrow> new_texture_node tex_key m)"

text \<open>Lines 127--137: the Normal Map node, found by type and name prefix or created.\<close>

definition find_normal_map :: "string \<Rightarrow> node list \<Rightarrow> nat option" where
  "find_normal_map tex_key ns =
     first_index (\<lambda>n. nd_type n = ''NORMAL_MAP'' \<and> startswith (nd_name n) (tex_key @ ''_'')) ns"

definition new_normal_map :: "string \<Rightarrow> nat \<Rightarrow> material \<Rightarrow> material \<times> nat" where
  "new_normal_map tex_key texture_node m =
     (let ns = nodes_new ''ShaderNodeNormalMap'' (nodes m);
          i = length (nodes m)
      in (m\<lparr>nodes := ns[i := (ns ! i)\<lparr>nd_location := (- 200, snd (nd_location (ns ! texture_node))),
                                       nd_name := tex_key @ ''_normal_map''\<rparr>]\<rparr>, i))"

definition ensure_normal_map :: "string \<Rightarrow> nat \<Rightarrow> material \<Rightarrow> material \<times> nat" where
  "ensure_normal_map tex_key texture_node m =
     (case find_normal_map tex_key (nodes m) of
        Some i \<Rightarrow> (m, i)
      | None \<Rightarrow> new_normal_map tex_key texture_node m)"

text \<open>
  Lines 123--149. The result is the material with the texture node connected, and the
  texture node; \<open>None\<close> is the return without a value of line 149.
\<close>

definition connect_texture :: "material \<Rightarrow> nat \<Rightarrow> string \<Rightarrow> string \<Rightarrow> nat \<Rightarrow> material option" where
  "connect_texture m pn tex_key target_input texture_node =
     (if target_input \<in> set (nd_inputs (nodes m ! pn))
      then if tex_key = ''normal''
           then (let (m1, normal_map_node) = ensure_normal_map tex_key texture_node m
                 in Some (m1\<lparr>links :=
                      links_new (normal_map_node, ''Normal'') (pn, ''Normal'')
                        (links_new (texture_node, ''Color'') (normal_map_node, ''Color'')
                           (links m1))\<rparr>))
           else Some (m\<lparr>links := links_new (texture_node, ''Color'') (pn, target_input) (links m)\<rparr>)
      else None)"

subsection \<open>Lines 151--188: the image\<close>

text \<open>
  The result of the load step: the material, the image collection and whether the image
  was applied. Lines 155--177 are one \<^verbatim>\<open>try\<close> block whose handler returns False
  (line 183), so an exception leaves the scene as the statements before it made it:
  \<^item> a file that does not exist (line 186) and a load that raises (line 165) leave the
    scene as the connection step made it;
  \<^item> a color space name that the color configuration does not have makes line 173 or
    line 176 raise, after the image was loaded or found and assigned to the texture node
    (line 169): the image stays in the collection and on the node, with the color space
    it had.
\<close>

definition nonc_keys :: "string list" where
  "nonc_keys = [''normal'', ''roughness'', ''specular'']"

definition load_and_assign ::
  "host \<Rightarrow> material \<Rightarrow> image_asset list \<Rightarrow> nat \<Rightarrow> string \<Rightarrow> string
     \<Rightarrow> (material \<times> image_asset list) \<times> bool"
where
  "load_and_assign fs m imgs texture_node tex_key texture_file_path =
     (if path_exists fs texture_file_path
      then (case (case first_index (\<lambda>img. filepath img = texture_file_path) imgs of
                    Some existing_img \<Rightarrow> Some (imgs, existing_img)
                  | None \<Rightarrow>
                      if load_ok fs texture_file_path
                      then Some (imgs @ [\<lparr>filepath = texture_file_path,
                                          colorspace = loaded_colorspace fs texture_file_path\<rparr>],
                                 length imgs)
                      else None) of
              None \<Rightarrow> ((m, imgs), False)
            | Some (imgs1, new_img) \<Rightarrow>
                (let m1 = m\<lparr>nodes := (nodes m)[texture_node :=
                             (nodes m ! texture_node)\<lparr>nd_image := Some new_img\<rparr>]\<rparr>;
                     name = (if tex_key \<in> set nonc_keys then ''Non-Color'' else ''sRGB'')
                 in if name \<in> set (colorspaces fs)
                    then ((m1, imgs1[new_img := (imgs1 ! new_img)\<lparr>colorspace := name\<rparr>]), True)
                    else ((m1, imgs1), False)))
      else ((m, imgs), False))"

subsection \<open>The whole function\<close>

text \<open>
  The value returned is \<open>Some True\<close>, \<open>Some False\<close>, or \<open>None\<close> where the
  Python function returns without a value. The material and the image collection are
  mutated in place by the script; here they are returned.
\<close>

definition replace_texture_in_nodes ::
  "host \<Rightarrow> material \<Rightarrow> image_asset list \<Rightarrow> string \<Rightarrow> string
     \<Rightarrow> (material \<times> image_asset list) \<times> bool option"
where
  "replace_texture_in_nodes fs material imgs tex_key texture_file_path =
     (if \<not> use_nodes material then ((material, imgs), Some False)
      else case find_principled (nodes material) of
        None \<Rightarrow> ((material, imgs), Some False)
      | Some pn \<Rightarrow>
         (case resolve_target_input tex_key (nd_inputs (nodes material ! pn)) of
            None \<Rightarrow> ((material, imgs), None)
          | Some target_input \<Rightarrow>
             (let (m1, texture_node) = ensure_texture_node material pn tex_key target_input
              in case connect_texture m1 pn tex_key target_input texture_node of
                   None \<Rightarrow> ((m1, imgs), None)
                 | Some m2 \<Rightarrow>
                     (let (st, ok) = load_and_assign fs m2 imgs texture_node tex_key texture_file_path
                      in (st, Some ok)))))"

section \<open>apply_textures_to_all_materials\<close>

text \<open>
  \<^verbatim>\<open>bpy.data\<close>: the objects by name, the materials (a material slot holds a reference
  to a material, or nothing; two slots may hold the same material) and the images.
\<close>

record scene_object =
  obj_type :: string
  material_slots :: "nat option list"

record blend_data =
  objects :: "string \<Rightarrow> scene_object option"
  materials :: "nat \<Rightarrow> material"
  images :: "image_asset list"

definition curtain_objects :: "string list" where
  "curtain_objects = [''cur_1'', ''cur_2'']"

text \<open>The dictionary of lines 36--41, in the order its items are iterated.\<close>

definition texture_paths :: "string \<Rightarrow> string \<Rightarrow> string \<Rightarrow> string \<Rightarrow> (string \<times> string) list" where
  "texture_paths diffuse_path normal_path roughness_path specular_path =
     [(''diffuse'', diffuse_path),
      (''normal'', normal_path),
      (''roughness'', roughness_path),
      (''specular'', specular_path)]"

text \<open>
  Lines 210--219, the loop over the texture types for one material. The state is the scene
  data with \<^verbatim>\<open>success_count\<close> and \<^verbatim>\<open>total_count\<close>. No statement of
  \<open>replace_texture_in_nodes\<close> raises to its caller (the load is inside its own
  \<^verbatim>\<open>try\<close>), so the handler of line 218 has no case here; it would leave both
  counters as they are after line 211.
\<close>

fun apply_tex_keys ::
  "host \<Rightarrow> nat \<Rightarrow> (string \<times> string) list \<Rightarrow> blend_data \<times> nat \<times> nat \<Rightarrow> blend_data \<times> nat \<times> nat"
where
  "apply_tex_keys h mat [] st = st"
| "apply_tex_keys h mat ((tex_key, tex_path) # rest) (d, success_count, total_count) =
     (let ((m, imgs), result) =
            replace_texture_in_nodes h (materials d mat) (images d) tex_key tex_path;
          d1 = d\<lparr>materials := (materials d)(mat := m), images := imgs\<rparr>
      in apply_tex_keys h mat rest
           (d1, if result = Some True then success_count + 1 else success_count,
            total_count + 1))"

text \<open>Lines 205--208.\<close>

definition ensure_use_nodes :: "host \<Rightarrow> nat \<Rightarrow> blend_data \<Rightarrow> blend_data" where
  "ensure_use_nodes h mat d =
     (if \<not> use_nodes (materials d mat)
      then d\<lparr>materials := (materials d)(mat := (default_tree h (materials d mat))\<lparr>use_nodes := True\<rparr>)\<rparr>
      else d)"

text \<open>Lines 201--221, the loop over the material slots of one object.\<close>

fun apply_to_slots ::
  "host \<Rightarrow> (string \<times> string) list \<Rightarrow> nat option list \<Rightarrow> blend_data \<times> nat \<times> nat
     \<Rightarrow> blend_data \<times> nat \<times> nat"
where
  "apply_to_slots h paths [] st = st"
| "apply_to_slots h paths (slot # rest) (d, success_count, total_count) =
     (case slot of
        Some mat \<Rightarrow>
          apply_to_slots h paths rest
            (apply_tex_keys h mat paths (ensure_use_nodes h mat d, success_count, total_count))
      | None \<Rightarrow> apply_to_slots h paths rest (d, success_count, total_count))"

text \<open>Lines 197--223, the loop over the object names.\<close>

fun apply_to_objects ::
  "host \<Rightarrow> (string \<times> string) list \<Rightarrow> string list \<Rightarrow> blend_data \<times> nat \<times> nat
     \<Rightarrow> blend_data \<times> nat \<times> nat"
where
  "apply_to_objects h paths [] st = st"
| "apply_to_objects h paths (obj_name # rest) (d, success_count, total_count) =
     (case objects d obj_name of
        Some obj \<Rightarrow>
          if obj_type obj = ''MESH''
          then apply_to_objects h paths rest
                 (apply_to_slots h paths (material_slots obj) (d, success_count, total_count))
          else apply_to_objects h paths rest (d, success_count, total_count)
      | None \<Rightarrow> apply_to_objects h paths rest (d, success_count, total_count))"

definition apply_textures_to_all_materials ::
  "host \<Rightarrow> (string \<times> string) list \<Rightarrow> blend_data \<Rightarrow> blend_data \<times> nat \<times> nat"
where
  "apply_textures_to_all_materials h paths d = apply_to_objects h paths curtain_objects (d, 0, 0)"

section \<open>Compute devices (lines 265--335)\<close>

record device =
  dev_name :: string
  dev_type :: string
  dev_use :: bool

record cycles_prefs =
  compute_device_type :: string
  devices :: "device list"

record cycles_scene =
  cycles_device :: string
  denoiser :: string

text \<open>
  The machine Blender runs on: the values its build accepts for
  \<^verbatim>\<open>compute_device_type\<close> besides \<^verbatim>\<open>NONE\<close>, which every build has, and what
  \<^verbatim>\<open>get_devices()\<close> makes of the device collection under a given device type
  (\<open>None\<close> when it raises).
\<close>

record machine =
  backends :: "string list"
  get_devices :: "string \<Rightarrow> device list \<Rightarrow> device list option"

text \<open>Assigning a value that is not an item of the enumeration raises a TypeError.\<close>

definition set_compute_device_type :: "machine \<Rightarrow> string \<Rightarrow> cycles_prefs \<Rightarrow> cycles_prefs option" where
  "set_compute_device_type mc v p =
     (if v = ''NONE'' \<or> v \<in> set (backends mc) then Some (p\<lparr>compute_device_type := v\<rparr>) else None)"

definition refresh_devices :: "machine \<Rightarrow> cycles_prefs \<Rightarrow> cycles_prefs option" where
  "refresh_devices mc p =
     map_option (\<lambda>ds. p\<lparr>devices := ds\<rparr>) (get_devices mc (compute_device_type p) (devices p))"

definition available_types :: "string list" where
  "available_types = [''OPTIX'', ''CUDA'', ''OPENCL'', ''HIP'']"

text \<open>
  Lines 287--294: the preferences as the two statements left them, and
  \<^verbatim>\<open>type_devices\<close>, or \<open>None\<close> when one of the statements raised.
\<close>

definition probe :: "machine \<Rightarrow> string \<Rightarrow> cycles_prefs \<Rightarrow> cycles_prefs \<times> device list option" where
  "probe mc device_type p =
     (case set_compute_device_type mc device_type p of
        None \<Rightarrow> (p, None)
      | Some p1 \<Rightarrow>
          (case refresh_devices mc p1 of
             None \<Rightarrow> (p1, None)
           | Some p2 \<Rightarrow> (p2, Some (filter (\<lambda>device. dev_type device = device_type) (devices p2)))))"

text \<open>The loops of lines 299--304 and 327--331.\<close>

definition use_only :: "string \<Rightarrow> cycles_prefs \<Rightarrow> cycles_prefs" where
  "use_only ty p = p\<lparr>devices := map (\<lambda>device. device\<lparr>dev_use := (dev_type device = ty)\<rparr>) (devices p)\<rparr>"

text \<open>
  Lines 285--321. The first component of the result is \<^verbatim>\<open>gpu_found\<close>. An exception
  in the body is caught by the handler of line 319, which goes on to the next type. The
  statements that can raise are the two of the probe; the denoiser names of lines 312 and
  315 are taken to be items of the build's enumeration, so that those assignments do not.
\<close>

fun try_types ::
  "machine \<Rightarrow> bool \<Rightarrow> string list \<Rightarrow> cycles_prefs \<times> cycles_scene
     \<Rightarrow> bool \<times> cycles_prefs \<times> cycles_scene"
where
  "try_types mc use_denoising [] (p, sc) = (False, p, sc)"
| "try_types mc use_denoising (device_type # rest) (p, sc) =
     (case probe mc device_type p of
        (p1, None) \<Rightarrow> try_types mc use_denoising rest (p1, sc)
      | (p1, Some type_devices) \<Rightarrow>
          if type_devices \<noteq> []
          then (True, use_only device_type p1,
                sc\<lparr>cycles_device := ''GPU'',
                   denoiser :=
                     (if device_type = ''OPTIX'' \<and> use_denoising then ''OPTIX''
                      else if use_denoising then ''OPENIMAGEDENOISE''
                      else denoiser sc)\<rparr>)
          else try_types mc use_denoising rest (p1, sc))"

text \<open>
  Lines 266--335. \<open>None\<close> is an exception leaving the block: the assignment of line 325
  is outside every \<^verbatim>\<open>try\<close>. The refresh of lines 275--279 has a handler of its own.
\<close>

definition configure_device ::
  "machine \<Rightarrow> bool \<Rightarrow> bool \<Rightarrow> cycles_prefs \<times> cycles_scene \<Rightarrow> (cycles_prefs \<times> cycles_scene) option"
where
  "configure_device mc use_gpu use_denoising st =
     (case st of (p, sc) \<Rightarrow>
        if use_gpu
        then (let p0 = (case refresh_devices mc p of None \<Rightarrow> p | Some p' \<Rightarrow> p');
                  (gpu_found, p1, sc1) = try_types mc use_denoising available_types (p0, sc)
              in if \<not> gpu_found
                 then (case set_compute_device_type mc ''NONE'' p1 of
                         None \<Rightarrow> None
                       | Some p2 \<Rightarrow> Some (use_only ''CPU'' p2, sc1\<lparr>cycles_device := ''CPU''\<rparr>))
                 else Some (p1, sc1))
        else Some (p, sc\<lparr>cycles_device := ''CPU''\<rparr>))"

section \<open>Notions used to state the properties\<close>

text \<open>A name of the object list counts when the object exists and is a mesh (line 199).\<close>

definition valid_mesh :: "blend_data \<Rightarrow> string \<Rightarrow> bool" where
  "valid_mesh d obj_name =
     (case objects d obj_name of Some obj \<Rightarrow> obj_type obj = ''MESH'' | None \<Rightarrow> False)"

definition nonempty_slots :: "blend_data \<Rightarrow> string \<Rightarrow> nat" where
  "nonempty_slots d obj_name =
     (case objects d obj_name of
        Some obj \<Rightarrow> length (filter (\<lambda>slot. slot \<noteq> None) (material_slots obj))
      | None \<Rightarrow> 0)"

text \<open>
  A material the binder can work on: nodes are enabled, and the first Principled BSDF node
  is at position \<open>pn\<close> and has the inputs \<open>inps\<close>.
\<close>

definition bindable :: "material \<Rightarrow> nat \<Rightarrow> string list \<Rightarrow> bool" where
  "bindable m pn inps \<longleftrightarrow>
     use_nodes m \<and> find_principled (nodes m) = Some pn \<and> nd_inputs (nodes m ! pn) = inps"

text \<open>
  The probe of a device type finds nothing: it raises, or no device of the type is listed.
\<close>

definition no_devices :: "machine \<Rightarrow> string \<Rightarrow> cycles_prefs \<Rightarrow> bool" where
  "no_devices mc device_type p =
     (case snd (probe mc device_type p) of None \<Rightarrow> True | Some type_devices \<Rightarrow> type_devices = [])"

section \<open>An example scene\<close>

text \<open>
  Two curtain meshes that share one material; the second mesh has an empty slot as well.
  The material's tree is the default one: a Principled BSDF feeding the material output.
\<close>

definition principled_bsdf :: node where
  "principled_bsdf =
     \<lparr>nd_type = ''BSDF_PRINCIPLED'', nd_name = ''Principled BSDF'', nd_location = (0, 0),
      nd_inputs = [''Base Color'', ''Metallic'', ''Roughness'', ''IOR'', ''Alpha'', ''Normal'',
                   ''Specular IOR Level''],
      nd_image = None\<rparr>"

definition material_output :: node where
  "material_output =
     \<lparr>nd_type = ''OUTPUT_MATERIAL'', nd_name = ''Material Output'', nd_location = (300, 0),
      nd_inputs = [''Surface'', ''Volume'', ''Displacement''], nd_image = None\<rparr>"

definition curtain_material :: material where
  "curtain_material =
     \<lparr>mat_name = ''Curtain'', use_nodes = True,
      nodes = [principled_bsdf, material_output],
      links = [\<lparr>from_node = 0, from_socket = ''BSDF'', to_node = 1, to_socket = ''Surface''\<rparr>]\<rparr>"

definition curtain_scene :: blend_data where
  "curtain_scene =
     \<lparr>objects = [''cur_1'' \<mapsto> \<lparr>obj_type = ''MESH'', material_slots = [Some 0]\<rparr>,
                 ''cur_2'' \<mapsto> \<lparr>obj_type = ''MESH'', material_slots = [None, Some 0]\<rparr>,
                 ''Camera.006'' \<mapsto> \<lparr>obj_type = ''CAMERA'', material_slots = []\<rparr>],
      materials = (\<lambda>_. curtain_material),
      images = []\<rparr>"

text \<open>A host on which every texture file but the normal map exists.\<close>

definition studio_host :: host where
  "studio_host =
     \<lparr>path_exists = (\<lambda>p. p \<in> set [''/tmp/diffuse.png'', ''/tmp/roughness.png'', ''/tmp/specular.png'']),
      load_ok = (\<lambda>p. True),
      loaded_colorspace = (\<lambda>p. ''sRGB''),
      colorspaces = [''sRGB'', ''Non-Color''],
      default_tree = (\<lambda>m. m)\<rparr>"

text \<open>A host on which all four texture files exist.\<close>

definition render_host :: host where
  "render_host =
     \<lparr>path_exists = (\<lambda>p. p \<in> set [''/tmp/diffuse.png'', ''/tmp/normal.png'', ''/tmp/roughness.png'',
                                    ''/tmp/specular.png'']),
      load_ok = (\<lambda>p. True),
      loaded_colorspace = (\<lambda>p. ''sRGB''),
      colorspaces = [''sRGB'', ''Non-Color''],
      default_tree = (\<lambda>m. m)\<rparr>"

text \<open>A host with all four files whose color configuration lacks Non-Color.\<close>

definition plain_color_host :: host where
  "plain_color_host =
     \<lparr>path_exists = (\<lambda>p. p \<in> set [''/tmp/diffuse.png'', ''/tmp/normal.png'', ''/tmp/roughness.png'',
                                    ''/tmp/specular.png'']),
      load_ok = (\<lambda>p. True),
      loaded_colorspace = (\<lambda>p. ''sRGB''),
      colorspaces = [''sRGB'', ''Linear''],
      default_tree = (\<lambda>m. m)\<rparr>"


section \<open>Example machines\<close>

definition cpu_device :: device where
  "cpu_device = \<lparr>dev_name = ''Intel Xeon'', dev_type = ''CPU'', dev_use = False\<rparr>"

definition cuda_device :: device where
  "cuda_device = \<lparr>dev_name = ''GeForce RTX'', dev_type = ''CUDA'', dev_use = False\<rparr>"

definition optix_device :: device where
  "optix_device = \<lparr>dev_name = ''GeForce RTX'', dev_type = ''OPTIX'', dev_use = False\<rparr>"


text \<open>A machine with a CUDA card on which enumerating under OPTIX raises.\<close>

definition cuda_machine :: machine where
  "cuda_machine =
     \<lparr>backends = [''CUDA'', ''OPTIX'', ''HIP''],
      get_devices = (\<lambda>ty ds. if ty = ''OPTIX'' then None else Some [cpu_device, cuda_device])\<rparr>"

text \<open>A machine whose card is listed under both CUDA and OPTIX.\<close>

definition optix_machine :: machine where
  "optix_machine =
     \<lparr>backends = [''CUDA'', ''OPTIX''],
      get_devices = (\<lambda>ty ds. Some [cuda_device\<lparr>dev_use := True\<rparr>, optix_device, cpu_device\<lparr>dev_use := True\<rparr>])\<rparr>"

definition fresh_prefs :: cycles_prefs where
  "fresh_prefs = \<lparr>compute_device_type = ''NONE'', devices = [cpu_device]\<rparr>"

definition fresh_scene :: cycles_scene where
  "fresh_scene = \<lparr>cycles_device = ''CPU'', denoiser = ''OPENIMAGEDENOISE''\<rparr>"

section \<open>Input resolution\<close>

lemma find_first_present:
  "\<forall>x \<in> set pre. \<not> P x \<Longrightarrow> P n \<Longrightarrow> find P (pre @ n # post) = Some n"
  by (induction pre) auto

lemma find_none_present: "\<forall>x \<in> set xs. \<not> P x \<Longrightarrow> find P xs = None"
  by (induction xs) auto

text \<open>
  Claim C2. When the primary input name of a texture type is not among the inputs of the
  Principled BSDF, the fallback names of that type are tried in their fixed order
  (specular: Metallic, Specular, Specular IOR Level; diffuse: Base Color, Albedo;
  roughness: Roughness; normal: Normal) and the first one present is the result; there is
  no result when none is present. In particular a shader with an input Specular and with
  neither Specular IOR Level nor Metallic gives Specular for the specular texture. The
  result is a function of the texture type and the inputs, so it is the same on every call.
\<close>

theorem resolve_target_input_order:
  "fallback_mapping ''specular'' = [''Metallic'', ''Specular'', ''Specular IOR Level'']
   \<and> fallback_mapping ''diffuse'' = [''Base Color'', ''Albedo'']
   \<and> fallback_mapping ''roughness'' = [''Roughness'']
   \<and> fallback_mapping ''normal'' = [''Normal'']
   \<and> (input_mapping tex_key = Some primary \<and> primary \<notin> set inps
        \<and> fallback_mapping tex_key = pre @ n # post
        \<and> (\<forall>x \<in> set pre. x \<notin> set inps) \<and> n \<in> set inps
       \<longrightarrow> resolve_target_input tex_key inps = Some n)
   \<and> (input_mapping tex_key = Some primary \<and> primary \<notin> set inps
        \<and> (\<forall>x \<in> set (fallback_mapping tex_key). x \<notin> set inps)
       \<longrightarrow> resolve_target_input tex_key inps = None)
   \<and> (''Specular'' \<in> set inps \<and> ''Specular IOR Level'' \<notin> set inps \<and> ''Metallic'' \<notin> set inps
       \<longrightarrow> resolve_target_input ''specular'' inps = Some ''Specular'')"
proof -
  have f1: "fallback_mapping ''specular'' = [''Metallic'', ''Specular'', ''Specular IOR Level'']"
    by (simp add: fallback_mapping_def)
  have f2: "fallback_mapping ''diffuse'' = [''Base Color'', ''Albedo'']"
    by (simp add: fallback_mapping_def)
  have f3: "fallback_mapping ''roughness'' = [''Roughness'']"
    by (simp add: fallback_mapping_def)
  have f4: "fallback_mapping ''normal'' = [''Normal'']"
    by (simp add: fallback_mapping_def)
  have first: "resolve_target_input tex_key inps = Some n"
    if "input_mapping tex_key = Some primary" "primary \<notin> set inps"
       "fallback_mapping tex_key = pre @ n # post"
       "\<forall>x \<in> set pre. x \<notin> set inps" "n \<in> set inps"
    using that by (simp add: resolve_target_input_def find_first_present)
  have none: "resolve_target_input tex_key inps = None"
    if "input_mapping tex_key = Some primary" "primary \<notin> set inps"
       "\<forall>x \<in> set (fallback_mapping tex_key). x \<notin> set inps"
    using that by (simp add: resolve_target_input_def find_none_present)
  have spec: "resolve_target_input ''specular'' inps = Some ''Specular''"
    if "''Specular'' \<in> set inps" "''Specular IOR Level'' \<notin> set inps" "''Metallic'' \<notin> set inps"
    using that by (simp add: resolve_target_input_def input_mapping_def f1)
  from f1 f2 f3 f4 first none spec show ?thesis by blast
qed

theorem resolve_target_input_order_witness:
  "resolve_target_input ''specular'' [''Base Color'', ''Specular'', ''Roughness'', ''Normal'']
     = Some ''Specular''
   \<and> resolve_target_input ''diffuse'' [''Albedo'', ''Roughness''] = Some ''Albedo''
   \<and> resolve_target_input ''normal'' [''Base Color''] = None"
proof -
  have a: "resolve_target_input ''specular'' [''Base Color'', ''Specular'', ''Roughness'', ''Normal'']
             = Some ''Specular''"
    using resolve_target_input_order
      [of "''specular''" "''Specular IOR Level''"
          "[''Base Color'', ''Specular'', ''Roughness'', ''Normal'']"
          "[''Metallic'']" "''Specular''" "[''Specular IOR Level'']"]
    by (simp add: input_mapping_def)
  have b: "resolve_target_input ''diffuse'' [''Albedo'', ''Roughness''] = Some ''Albedo''"
    using resolve_target_input_order
      [of "''diffuse''" "''Base Color''" "[''Albedo'', ''Roughness'']"
          "[''Base Color'']" "''Albedo''" "[]"]
    by (simp add: input_mapping_def)
  have c: "resolve_target_input ''normal'' [''Base Color''] = None"
    using resolve_target_input_order
      [of "''normal''" "''Normal''" "[''Base Color'']" "[]" "''Normal''" "[]"]
    by (simp add: input_mapping_def)
  from a b c show ?thesis by simp
qed

section \<open>The attempt count of the material walk\<close>

lemma apply_tex_keys_objects:
  "objects (fst (apply_tex_keys h mat ps (d, s, t))) = objects d"
  by (induction ps arbitrary: d s t) (auto simp: Let_def split: prod.splits)

lemma apply_tex_keys_total:
  "snd (snd (apply_tex_keys h mat ps (d, s, t))) = t + length ps"
  by (induction ps arbitrary: d s t) (auto simp: Let_def split: prod.splits)

lemma ensure_use_nodes_objects: "objects (ensure_use_nodes h mat d) = objects d"
  by (simp add: ensure_use_nodes_def)

lemma apply_to_slots_objects:
  "objects (fst (apply_to_slots h ps slots (d, s, t))) = objects d"
proof (induction slots arbitrary: d s t)
  case Nil
  then show ?case by simp
next
  case (Cons slot slots)
  show ?case
  proof (cases slot)
    case None
    then show ?thesis using Cons.IH by simp
  next
    case (Some mat)
    obtain d1 s1 t1 where r: "apply_tex_keys h mat ps (ensure_use_nodes h mat d, s, t) = (d1, s1, t1)"
      by (cases "apply_tex_keys h mat ps (ensure_use_nodes h mat d, s, t)") auto
    have "objects d1 = objects d"
      using apply_tex_keys_objects [of h mat ps "ensure_use_nodes h mat d" s t] r
      by (simp add: ensure_use_nodes_objects)
    then show ?thesis using Some r Cons.IH [of d1 s1 t1] by simp
  qed
qed

lemma apply_to_slots_total:
  "snd (snd (apply_to_slots h ps slots (d, s, t)))
     = t + length ps * length (filter (\<lambda>slot. slot \<noteq> None) slots)"
proof (induction slots arbitrary: d s t)
  case Nil
  then show ?case by simp
next
  case (Cons slot slots)
  show ?case
  proof (cases slot)
    case None
    then show ?thesis using Cons.IH by simp
  next
    case (Some mat)
    obtain d1 s1 t1 where r: "apply_tex_keys h mat ps (ensure_use_nodes h mat d, s, t) = (d1, s1, t1)"
      by (cases "apply_tex_keys h mat ps (ensure_use_nodes h mat d, s, t)") auto
    have "t1 = t + length ps"
      using apply_tex_keys_total [of h mat ps "ensure_use_nodes h mat d" s t] r by simp
    then show ?thesis using Some r Cons.IH [of d1 s1 t1] by simp
  qed
qed

lemma apply_to_objects_total:
  "snd (snd (apply_to_objects h ps names (d, s, t)))
     = t + length ps * (\<Sum>n\<leftarrow>filter (valid_mesh d) names. nonempty_slots d n)"
proof (induction names arbitrary: d s t)
  case Nil
  then show ?case by simp
next
  case (Cons obj_name names)
  show ?case
  proof (cases "valid_mesh d obj_name")
    case False
    then have "apply_to_objects h ps (obj_name # names) (d, s, t) = apply_to_objects h ps names (d, s, t)"
      by (auto simp: valid_mesh_def split: option.splits)
    then show ?thesis using False Cons.IH [of d s t] by simp
  next
    case True
    then obtain obj where obj: "objects d obj_name = Some obj" "obj_type obj = ''MESH''"
      by (auto simp: valid_mesh_def split: option.splits)
    obtain d1 s1 t1 where r: "apply_to_slots h ps (material_slots obj) (d, s, t) = (d1, s1, t1)"
      by (cases "apply_to_slots h ps (material_slots obj) (d, s, t)") auto
    have t1: "t1 = t + length ps * nonempty_slots d obj_name"
      using apply_to_slots_total [of h ps "material_slots obj" d s t] r obj
      by (simp add: nonempty_slots_def)
    have o1: "objects d1 = objects d"
      using apply_to_slots_objects [of h ps "material_slots obj" d s t] r by simp
    have same: "valid_mesh d1 = valid_mesh d" "nonempty_slots d1 = nonempty_slots d"
      using o1 by (auto simp: valid_mesh_def nonempty_slots_def fun_eq_iff)
    have "apply_to_objects h ps (obj_name # names) (d, s, t) = apply_to_objects h ps names (d1, s1, t1)"
      using obj r by simp
    then show ?thesis
      using True Cons.IH [of d1 s1 t1] t1 same by (simp add: algebra_simps)
  qed
qed

lemma sum_list_const: "\<forall>x \<in> set xs. f x = (c::nat) \<Longrightarrow> (\<Sum>x\<leftarrow>xs. f x) = length xs * c"
  by (induction xs) auto

text \<open>
  Claim C3. The attempt count returned by the material walk is four for every non-empty
  material slot of every listed object that exists and is a mesh, whatever the single
  binds return: the sum of the non-empty slot counts of those objects, times four. Names
  without an object, objects that are not meshes and empty slots add nothing. When each
  such object has \<open>M\<close> non-empty slots and there are \<open>N\<close> of them, the count is
  \<open>N * M * 4\<close>.
\<close>

theorem total_count_four_per_slot:
  "snd (snd (apply_textures_to_all_materials h (texture_paths dp np rp sp) d))
     = 4 * (\<Sum>n\<leftarrow>filter (valid_mesh d) curtain_objects. nonempty_slots d n)
   \<and> ((\<forall>n \<in> set (filter (valid_mesh d) curtain_objects). nonempty_slots d n = M) \<longrightarrow>
        snd (snd (apply_textures_to_all_materials h (texture_paths dp np rp sp) d))
          = length (filter (valid_mesh d) curtain_objects) * M * 4)"
proof -
  have len: "length (texture_paths dp np rp sp) = 4"
    by (simp add: texture_paths_def)
  have total: "snd (snd (apply_textures_to_all_materials h (texture_paths dp np rp sp) d))
     = 4 * (\<Sum>n\<leftarrow>filter (valid_mesh d) curtain_objects. nonempty_slots d n)"
    unfolding apply_textures_to_all_materials_def
    using apply_to_objects_total [of h "texture_paths dp np rp sp" curtain_objects d 0 0] len
    by simp
  have "(\<Sum>n\<leftarrow>filter (valid_mesh d) curtain_objects. nonempty_slots d n)
          = length (filter (valid_mesh d) curtain_objects) * M"
    if "\<forall>n \<in> set (filter (valid_mesh d) curtain_objects). nonempty_slots d n = M"
    using that by (rule sum_list_const)
  with total show ?thesis by simp
qed

theorem total_count_four_per_slot_witness:
  "length (filter (valid_mesh curtain_scene) curtain_objects) = 2
   \<and> nonempty_slots curtain_scene ''cur_1'' = 1
   \<and> nonempty_slots curtain_scene ''cur_2'' = 1
   \<and> snd (snd (apply_textures_to_all_materials studio_host
        (texture_paths ''/tmp/diffuse.png'' ''/tmp/normal.png'' ''/tmp/roughness.png''
           ''/tmp/specular.png'') curtain_scene)) = 2 * 1 * 4"
proof -
  have v: "filter (valid_mesh curtain_scene) curtain_objects = [''cur_1'', ''cur_2'']"
    by (simp add: valid_mesh_def curtain_scene_def curtain_objects_def)
  have n1: "nonempty_slots curtain_scene ''cur_1'' = 1"
    by (simp add: nonempty_slots_def curtain_scene_def)
  have n2: "nonempty_slots curtain_scene ''cur_2'' = 1"
    by (simp add: nonempty_slots_def curtain_scene_def)
  have "\<forall>n \<in> set (filter (valid_mesh curtain_scene) curtain_objects).
          nonempty_slots curtain_scene n = 1"
    using v n1 n2 by simp
  then show ?thesis
    using total_count_four_per_slot
      [of studio_host "''/tmp/diffuse.png''" "''/tmp/normal.png''" "''/tmp/roughness.png''"
          "''/tmp/specular.png''" curtain_scene 1] v n1 n2
    by simp
qed

section \<open>Device selection\<close>

lemma probe_Some:
  "probe mc t p = (p2, Some tds) \<Longrightarrow>
     compute_device_type p2 = t \<and> tds = filter (\<lambda>device. dev_type device = t) (devices p2)"
  by (auto simp: probe_def set_compute_device_type_def refresh_devices_def
      split: option.splits if_splits)

lemma try_types_skip:
  "no_devices mc t p \<Longrightarrow>
     try_types mc den (t # ts) (p, sc) = try_types mc den ts (fst (probe mc t p), sc)"
  by (cases "probe mc t p") (auto simp: no_devices_def split: option.splits)

lemma try_types_hit:
  assumes "\<not> no_devices mc t p"
  shows "try_types mc den (t # ts) (p, sc) =
           (True, use_only t (fst (probe mc t p)),
            sc\<lparr>cycles_device := ''GPU'',
               denoiser := (if t = ''OPTIX'' \<and> den then ''OPTIX''
                            else if den then ''OPENIMAGEDENOISE'' else denoiser sc)\<rparr>)"
  using assms by (cases "probe mc t p") (auto simp: no_devices_def split: option.splits)

lemma probe_hit:
  assumes "\<not> no_devices mc t p"
  shows "compute_device_type (fst (probe mc t p)) = t"
    and "\<exists>d \<in> set (devices (fst (probe mc t p))). dev_type d = t"
proof -
  obtain p2 tds where h: "probe mc t p = (p2, Some tds)" "tds \<noteq> []"
    using assms by (cases "probe mc t p") (auto simp: no_devices_def split: option.splits)
  have f: "compute_device_type p2 = t" "tds = filter (\<lambda>device. dev_type device = t) (devices p2)"
    using probe_Some [OF h(1)] by simp_all
  show "compute_device_type (fst (probe mc t p)) = t" using h f by simp
  show "\<exists>d \<in> set (devices (fst (probe mc t p))). dev_type d = t"
    using h f by (auto simp: filter_empty_conv)
qed


lemma try_types_first:
  assumes "\<forall>x \<in> set pre. \<forall>p. no_devices mc x p" and "\<forall>p. \<not> no_devices mc t p"
  shows "\<exists>p2. compute_device_type p2 = t \<and> (\<exists>d \<in> set (devices p2). dev_type d = t) \<and>
           (\<forall>post. try_types mc den (pre @ t # post) (p, sc) =
             (True, use_only t p2,
              sc\<lparr>cycles_device := ''GPU'',
                 denoiser := (if t = ''OPTIX'' \<and> den then ''OPTIX''
                              else if den then ''OPENIMAGEDENOISE'' else denoiser sc)\<rparr>))"
  using assms(1)
proof (induction pre arbitrary: p)
  case Nil
  have n: "\<not> no_devices mc t p" using assms(2) by simp
  show ?case
    using probe_hit [OF n] try_types_hit [OF n] by auto
next
  case (Cons x pre)
  have "no_devices mc x p" using Cons.prems by simp
  then have "try_types mc den ((x # pre) @ t # post) (p, sc)
               = try_types mc den (pre @ t # post) (fst (probe mc x p), sc)" for post
    using try_types_skip [of mc x p den "pre @ t # post" sc] by simp
  then show ?case using Cons.IH [of "fst (probe mc x p)"] Cons.prems by simp
qed

lemma try_types_denoiser_off:
  "denoiser (snd (snd (try_types mc False ts (p, sc)))) = denoiser sc"
  by (induction ts arbitrary: p) (auto split: prod.splits option.splits)

lemma use_only_props:
  "compute_device_type (use_only t p) = compute_device_type p"
  "\<forall>d \<in> set (devices (use_only t p)). dev_use d = (dev_type d = t)"
  "map dev_type (devices (use_only t p)) = map dev_type (devices p)"
  "map dev_name (devices (use_only t p)) = map dev_name (devices p)"
  by (auto simp: use_only_def)



text \<open>
  Claim C5. With GPU rendering requested the device types are probed in the order of the
  list. When every type before \<open>t\<close> finds nothing and \<open>t\<close> finds a device, \<open>t\<close>
  is chosen: the compute device type is \<open>t\<close>, a device of type \<open>t\<close> is listed,
  exactly the devices of type \<open>t\<close> are in use, and the scene renders on the GPU. The
  types after \<open>t\<close> play no part: the loop gives the same result whatever follows
  \<open>t\<close> in the list.
\<close>

theorem first_family_wins:
  assumes "available_types = pre @ t # post"
    and "\<forall>x \<in> set pre. \<forall>p. no_devices mc x p"
    and "\<forall>p. \<not> no_devices mc t p"
  shows "\<exists>p' sc'. configure_device mc True den (p, sc) = Some (p', sc')
           \<and> compute_device_type p' = t
           \<and> (\<exists>d \<in> set (devices p'). dev_type d = t)
           \<and> (\<forall>d \<in> set (devices p'). dev_use d = (dev_type d = t))
           \<and> cycles_device sc' = ''GPU''
           \<and> (\<forall>later st. fst (try_types mc den (pre @ t # later) st)
                 \<and> try_types mc den (pre @ t # later) st = try_types mc den (pre @ [t]) st)"
proof -
  define p0 where "p0 = (case refresh_devices mc p of None \<Rightarrow> p | Some p' \<Rightarrow> p')"
  obtain p2 where p2: "compute_device_type p2 = t" "\<exists>d \<in> set (devices p2). dev_type d = t"
    and run: "\<And>post. try_types mc den (pre @ t # post) (p0, sc) =
             (True, use_only t p2,
              sc\<lparr>cycles_device := ''GPU'',
                 denoiser := (if t = ''OPTIX'' \<and> den then ''OPTIX''
                              else if den then ''OPENIMAGEDENOISE'' else denoiser sc)\<rparr>)"
    using try_types_first [OF assms(2,3), of den p0 sc] by blast
  have conf: "configure_device mc True den (p, sc) =
          Some (use_only t p2,
                sc\<lparr>cycles_device := ''GPU'',
                   denoiser := (if t = ''OPTIX'' \<and> den then ''OPTIX''
                                else if den then ''OPENIMAGEDENOISE'' else denoiser sc)\<rparr>)"
    using run [of post] assms(1)
    by (simp add: configure_device_def p0_def [symmetric])
  have later: "fst (try_types mc den (pre @ t # later) st)
                 \<and> try_types mc den (pre @ t # later) st = try_types mc den (pre @ [t]) st"
    for later st
  proof -
    obtain q s where st: "st = (q, s)" by (cases st)
    obtain q2 where "\<And>post. try_types mc den (pre @ t # post) (q, s) =
             (True, use_only t q2,
              s\<lparr>cycles_device := ''GPU'',
                 denoiser := (if t = ''OPTIX'' \<and> den then ''OPTIX''
                              else if den then ''OPENIMAGEDENOISE'' else denoiser s)\<rparr>)"
      using try_types_first [OF assms(2,3), of den q s] by blast
    from this [of later] this [of "[]"] show ?thesis by (simp add: st)
  qed
  show ?thesis
    using conf p2 later by (auto simp: use_only_def)
qed

theorem first_family_wins_witness:
  "(\<forall>p. no_devices cuda_machine ''OPTIX'' p) \<and> (\<forall>p. \<not> no_devices cuda_machine ''CUDA'' p)
   \<and> (\<exists>p' sc'. configure_device cuda_machine True False (fresh_prefs, fresh_scene) = Some (p', sc')
           \<and> compute_device_type p' = ''CUDA''
           \<and> (\<exists>d \<in> set (devices p'). dev_type d = ''CUDA'')
           \<and> (\<forall>d \<in> set (devices p'). dev_use d = (dev_type d = ''CUDA''))
           \<and> cycles_device sc' = ''GPU'')"
proof -
  have n1: "\<forall>p. no_devices cuda_machine ''OPTIX'' p"
    by (simp add: no_devices_def probe_def set_compute_device_type_def refresh_devices_def
        cuda_machine_def)
  have n2: "\<forall>p. \<not> no_devices cuda_machine ''CUDA'' p"
    by (simp add: no_devices_def probe_def set_compute_device_type_def refresh_devices_def
        cuda_machine_def cpu_device_def cuda_device_def)
  have a: "available_types = [''OPTIX''] @ ''CUDA'' # [''OPENCL'', ''HIP'']"
    by (simp add: available_types_def)
  have b: "\<forall>x \<in> set [''OPTIX'']. \<forall>p. no_devices cuda_machine x p"
    using n1 by simp
  from first_family_wins [OF a b n2, of False fresh_prefs fresh_scene]
  have "\<exists>p' sc'. configure_device cuda_machine True False (fresh_prefs, fresh_scene) = Some (p', sc')
           \<and> compute_device_type p' = ''CUDA''
           \<and> (\<exists>d \<in> set (devices p'). dev_type d = ''CUDA'')
           \<and> (\<forall>d \<in> set (devices p'). dev_use d = (dev_type d = ''CUDA''))
           \<and> cycles_device sc' = ''GPU''"
    by blast
  with n1 n2 show ?thesis by blast
qed

lemma configure_device_denoiser_off:
  assumes "configure_device mc g False (p, sc) = Some (p', sc')"
  shows "denoiser sc' = denoiser sc"
proof (cases g)
  case False
  then show ?thesis using assms by (auto simp: configure_device_def)
next
  case True
  define p0 where "p0 = (case refresh_devices mc p of None \<Rightarrow> p | Some p' \<Rightarrow> p')"
  obtain f p1 sc1 where t: "try_types mc False available_types (p0, sc) = (f, p1, sc1)"
    by (cases "try_types mc False available_types (p0, sc)") auto
  have d: "denoiser sc1 = denoiser sc"
    using try_types_denoiser_off [of mc available_types p0 sc] t by simp
  show ?thesis
    using assms True t d
    by (auto simp: configure_device_def p0_def [symmetric] split: if_splits option.splits)
qed

text \<open>
  Claim C6. When a device type \<open>t\<close> is chosen and denoising is requested, the denoiser
  is OPTIX for the first type of the list and OPENIMAGEDENOISE for every other type; when
  denoising is not requested, the denoiser is the one the scene had, whether or not a GPU
  was asked for or found.
\<close>

theorem denoiser_by_family:
  assumes "available_types = pre @ t # post"
    and "\<forall>x \<in> set pre. \<forall>p. no_devices mc x p"
    and "\<forall>p. \<not> no_devices mc t p"
  shows "(\<exists>p' sc'. configure_device mc True den (p, sc) = Some (p', sc')
            \<and> compute_device_type p' = t
            \<and> denoiser sc' =
                (if den then (if t = hd available_types then ''OPTIX'' else ''OPENIMAGEDENOISE'')
                 else denoiser sc))
         \<and> (\<forall>g q s q' s'. configure_device mc g False (q, s) = Some (q', s')
               \<longrightarrow> denoiser s' = denoiser s)"
proof -
  define p0 where "p0 = (case refresh_devices mc p of None \<Rightarrow> p | Some p' \<Rightarrow> p')"
  obtain p2 where p2: "compute_device_type p2 = t"
    and run: "\<And>post. try_types mc den (pre @ t # post) (p0, sc) =
             (True, use_only t p2,
              sc\<lparr>cycles_device := ''GPU'',
                 denoiser := (if t = ''OPTIX'' \<and> den then ''OPTIX''
                              else if den then ''OPENIMAGEDENOISE'' else denoiser sc)\<rparr>)"
    using try_types_first [OF assms(2,3), of den p0 sc] by blast
  have conf: "configure_device mc True den (p, sc) =
          Some (use_only t p2,
                sc\<lparr>cycles_device := ''GPU'',
                   denoiser := (if t = ''OPTIX'' \<and> den then ''OPTIX''
                                else if den then ''OPENIMAGEDENOISE'' else denoiser sc)\<rparr>)"
    using run [of post] assms(1)
    by (simp add: configure_device_def p0_def [symmetric])
  have hd: "hd available_types = ''OPTIX''"
    by (simp add: available_types_def)
  have first: "\<exists>p' sc'. configure_device mc True den (p, sc) = Some (p', sc')
            \<and> compute_device_type p' = t
            \<and> denoiser sc' =
                (if den then (if t = hd available_types then ''OPTIX'' else ''OPENIMAGEDENOISE'')
                 else denoiser sc)"
    using conf p2 hd by (simp add: use_only_def)
  show ?thesis
    using first configure_device_denoiser_off by blast
qed

theorem denoiser_by_family_witness:
  "(\<forall>p. \<not> no_devices optix_machine ''OPTIX'' p)
   \<and> (\<exists>p' sc'. configure_device optix_machine True True (fresh_prefs, fresh_scene) = Some (p', sc')
         \<and> compute_device_type p' = ''OPTIX'' \<and> denoiser sc' = ''OPTIX'')
   \<and> (\<forall>p. no_devices cuda_machine ''OPTIX'' p) \<and> (\<forall>p. \<not> no_devices cuda_machine ''CUDA'' p)
   \<and> (\<exists>p' sc'. configure_device cuda_machine True True (fresh_prefs, fresh_scene\<lparr>denoiser := ''OPTIX''\<rparr>)
                  = Some (p', sc')
         \<and> compute_device_type p' = ''CUDA'' \<and> denoiser sc' = ''OPENIMAGEDENOISE'')"
proof -
  have o: "\<forall>p. \<not> no_devices optix_machine ''OPTIX'' p"
    by (simp add: no_devices_def probe_def set_compute_device_type_def refresh_devices_def
        optix_machine_def cpu_device_def cuda_device_def optix_device_def)
  have n1: "\<forall>p. no_devices cuda_machine ''OPTIX'' p"
    by (simp add: no_devices_def probe_def set_compute_device_type_def refresh_devices_def
        cuda_machine_def)
  have n2: "\<forall>p. \<not> no_devices cuda_machine ''CUDA'' p"
    by (simp add: no_devices_def probe_def set_compute_device_type_def refresh_devices_def
        cuda_machine_def cpu_device_def cuda_device_def)
  have a0: "available_types = [] @ ''OPTIX'' # [''CUDA'', ''OPENCL'', ''HIP'']"
    by (simp add: available_types_def)
  have b0: "\<forall>x \<in> set []. \<forall>p. no_devices optix_machine x p"
    by simp
  have a1: "available_types = [''OPTIX''] @ ''CUDA'' # [''OPENCL'', ''HIP'']"
    by (simp add: available_types_def)
  have b1: "\<forall>x \<in> set [''OPTIX'']. \<forall>p. no_devices cuda_machine x p"
    using n1 by simp
  have hd: "hd available_types = ''OPTIX''"
    by (simp add: available_types_def)
  have r0: "\<exists>p' sc'. configure_device optix_machine True True (fresh_prefs, fresh_scene) = Some (p', sc')
         \<and> compute_device_type p' = ''OPTIX'' \<and> denoiser sc' = ''OPTIX''"
    using denoiser_by_family [OF a0 b0 o, of True fresh_prefs fresh_scene] hd by simp
  have r1: "\<exists>p' sc'. configure_device cuda_machine True True (fresh_prefs, fresh_scene\<lparr>denoiser := ''OPTIX''\<rparr>)
                  = Some (p', sc')
         \<and> compute_device_type p' = ''CUDA'' \<and> denoiser sc' = ''OPENIMAGEDENOISE''"
    using denoiser_by_family [OF a1 b1 n2, of True fresh_prefs "fresh_scene\<lparr>denoiser := ''OPTIX''\<rparr>"] hd
    by simp
  from o r0 n1 n2 r1 show ?thesis by blast
qed

section \<open>Facts about the steps of replace_texture_in_nodes\<close>

lemma first_index_SomeD:
  "first_index P xs = Some i \<Longrightarrow> i < length xs \<and> P (xs ! i)"
  by (induction xs arbitrary: i) (auto split: if_splits)


lemma first_index_append_Some:
  "first_index P xs = Some i \<Longrightarrow> first_index P (xs @ ys) = Some i"
  by (induction xs arbitrary: i) (auto split: if_splits)

lemma first_index_append_None:
  "first_index P xs = None \<Longrightarrow>
     first_index P (xs @ [y]) = (if P y then Some (length xs) else None)"
  by (induction xs) (auto split: if_splits)

lemma first_index_map: "first_index (\<lambda>x. Q (f x)) xs = first_index Q (map f xs)"
  by (induction xs) auto

text \<open>The steps that place nodes only append to the node collection.\<close>

lemma new_texture_node_nodes:
  "new_texture_node k m = (m1, tn) \<Longrightarrow>
     tn = length (nodes m) \<and>
     (\<exists>n. nodes m1 = nodes m @ [n] \<and> nd_type n = ''TEX_IMAGE'' \<and> nd_image n = None) \<and>
     links m1 = links m \<and> use_nodes m1 = use_nodes m"
  by (auto simp: new_texture_node_def nodes_new_def Let_def type_of_idname_def)

lemma connected_texture_node_SomeD:
  "connected_texture_node m pn ti = Some tn \<Longrightarrow> node_has_type (nodes m) tn ''TEX_IMAGE''"
  by (auto simp: connected_texture_node_def find_Some_iff split: if_splits)

lemma ensure_texture_node_cases:
  assumes "ensure_texture_node m pn k ti = (m1, tn)"
  shows "(connected_texture_node m pn ti = Some tn \<and> m1 = m) \<or>
         (connected_texture_node m pn ti = None \<and> new_texture_node k m = (m1, tn))"
  using assms by (auto simp: ensure_texture_node_def split: option.splits)

lemma ensure_texture_node_props:
  assumes "ensure_texture_node m pn k ti = (m1, tn)"
  shows "node_has_type (nodes m1) tn ''TEX_IMAGE''"
    and "\<exists>extra. nodes m1 = nodes m @ extra \<and> (\<forall>n \<in> set extra. nd_image n = None)"
    and "links m1 = links m" and "use_nodes m1 = use_nodes m"
  using ensure_texture_node_cases [OF assms]
  by (auto dest!: new_texture_node_nodes connected_texture_node_SomeD
      simp: node_has_type_def nth_append)

lemma new_normal_map_nodes:
  "new_normal_map k tn m = (m1, nm) \<Longrightarrow>
     nm = length (nodes m) \<and>
     (\<exists>n. nodes m1 = nodes m @ [n] \<and> nd_type n = ''NORMAL_MAP'' \<and> nd_image n = None
           \<and> nd_name n = k @ ''_normal_map'') \<and>
     links m1 = links m \<and> use_nodes m1 = use_nodes m"
  by (auto simp: new_normal_map_def nodes_new_def Let_def type_of_idname_def)

lemma ensure_normal_map_props:
  assumes "ensure_normal_map k tn m = (m1, nm)"
  shows "node_has_type (nodes m1) nm ''NORMAL_MAP''"
    and "\<exists>extra. nodes m1 = nodes m @ extra \<and> (\<forall>n \<in> set extra. nd_image n = None)"
    and "links m1 = links m" and "use_nodes m1 = use_nodes m"
  using assms
  by (auto simp: ensure_normal_map_def find_normal_map_def node_has_type_def nth_append
      split: option.splits dest!: new_normal_map_nodes first_index_SomeD)

lemma connect_texture_props:
  assumes "connect_texture m pn k ti tn = Some m2"
  shows "\<exists>extra. nodes m2 = nodes m @ extra \<and> (\<forall>n \<in> set extra. nd_image n = None)"
    and "use_nodes m2 = use_nodes m"
proof -
  show "\<exists>extra. nodes m2 = nodes m @ extra \<and> (\<forall>n \<in> set extra. nd_image n = None)"
  proof (cases "k = ''normal''")
    case True
    obtain m1 nm where e: "ensure_normal_map k tn m = (m1, nm)"
      by (cases "ensure_normal_map k tn m") auto
    then have "nodes m2 = nodes m1"
      using assms True by (auto simp: connect_texture_def split: if_splits)
    then show ?thesis using ensure_normal_map_props(2) [OF e] by simp
  next
    case False
    then have "nodes m2 = nodes m"
      using assms by (auto simp: connect_texture_def split: if_splits)
    then show ?thesis by simp
  qed
  show "use_nodes m2 = use_nodes m"
  proof (cases "k = ''normal''")
    case True
    obtain m1 nm where e: "ensure_normal_map k tn m = (m1, nm)"
      by (cases "ensure_normal_map k tn m") auto
    then have "use_nodes m2 = use_nodes m1"
      using assms True by (auto simp: connect_texture_def split: if_splits)
    then show ?thesis using ensure_normal_map_props(4) [OF e] by simp
  next
    case False
    then show ?thesis
      using assms by (auto simp: connect_texture_def split: if_splits)
  qed
qed

lemma connect_texture_Some:
  "ti \<in> set (nd_inputs (nodes m ! pn)) \<Longrightarrow> \<exists>m2. connect_texture m pn k ti tn = Some m2"
  by (simp add: connect_texture_def split: prod.splits)

text \<open>The load step.\<close>

lemma load_and_assign_missing:
  "\<not> path_exists h path \<Longrightarrow> load_and_assign h m imgs tn k path = ((m, imgs), False)"
  by (simp add: load_and_assign_def)


lemma map_update_same: "(map f xs)[i := f (xs ! i)] = map f xs"
  by (induction xs arbitrary: i) (auto split: nat.splits)

lemma load_and_assign_material:
  assumes "load_and_assign h m imgs tn k path = ((m', imgs'), ok)"
  shows "m' = m \<or> (\<exists>i. m' = m\<lparr>nodes := (nodes m)[tn := (nodes m ! tn)\<lparr>nd_image := Some i\<rparr>]\<rparr>)"
  using assms
  by (auto simp: load_and_assign_def Let_def split: if_splits option.splits)

lemma load_and_assign_nodes:
  assumes "load_and_assign h m imgs tn k path = ((m', imgs'), ok)"
  shows "map nd_type (nodes m') = map nd_type (nodes m)"
    and "map nd_inputs (nodes m') = map nd_inputs (nodes m)"
    and "map nd_name (nodes m') = map nd_name (nodes m)"
    and "use_nodes m' = use_nodes m" and "links m' = links m"
  using load_and_assign_material [OF assms]
  by (auto simp: map_update map_update_same)



lemma resolve_Some_key:
  "resolve_target_input k inps = Some ti \<Longrightarrow>
     k \<in> {''diffuse'', ''normal'', ''roughness'', ''specular''} \<and> ti \<in> set inps"
  by (auto simp: resolve_target_input_def input_mapping_def find_Some_iff
      split: option.splits if_splits)

lemma sampler_after_wiring:
  assumes "ensure_texture_node m pn k ti = (m1, tn)" and "connect_texture m1 pn k ti tn = Some m2"
  shows "node_has_type (nodes m2) tn ''TEX_IMAGE''"
  using ensure_texture_node_props(1) [OF assms(1)] connect_texture_props(1) [OF assms(2)]
  by (auto simp: node_has_type_def nth_append)

lemma replace_early_exit:
  assumes "\<not> use_nodes m \<or> find_principled (nodes m) = None
           \<or> (\<exists>pn. find_principled (nodes m) = Some pn
                 \<and> resolve_target_input k (nd_inputs (nodes m ! pn)) = None)"
  shows "fst (fst (replace_texture_in_nodes h m imgs k path)) = m"
  using assms by (auto simp: replace_texture_in_nodes_def)

lemma replace_wired:
  assumes "use_nodes m" and "find_principled (nodes m) = Some pn"
    and "resolve_target_input k (nd_inputs (nodes m ! pn)) = Some ti"
    and "replace_texture_in_nodes h m imgs k path = ((m', imgs'), r)"
  shows "\<exists>m1 tn m2 ok. ensure_texture_node m pn k ti = (m1, tn)
           \<and> connect_texture m1 pn k ti tn = Some m2
           \<and> load_and_assign h m2 imgs tn k path = ((m', imgs'), ok)"
proof -
  obtain m1 tn where e: "ensure_texture_node m pn k ti = (m1, tn)"
    by (cases "ensure_texture_node m pn k ti") auto
  have pn: "pn < length (nodes m)"
    using first_index_SomeD [of _ "nodes m" pn] assms(2) by (simp add: find_principled_def)
  obtain x1 where "nodes m1 = nodes m @ x1"
    using ensure_texture_node_props(2) [OF e] by blast
  then have "nodes m1 ! pn = nodes m ! pn"
    using pn by (simp add: nth_append)
  then have "ti \<in> set (nd_inputs (nodes m1 ! pn))"
    using resolve_Some_key [OF assms(3)] by simp
  then obtain m2 where c: "connect_texture m1 pn k ti tn = Some m2"
    using connect_texture_Some by blast
  obtain ok where "load_and_assign h m2 imgs tn k path = ((m', imgs'), ok)"
    using assms e c
    by (cases "load_and_assign h m2 imgs tn k path")
      (auto simp: replace_texture_in_nodes_def)
  with e c show ?thesis by blast
qed

section \<open>The image of a successful bind\<close>








section \<open>A bind that stops at a missing file\<close>

lemma links_new_into:
  "filter (\<lambda>l. to_node l = a \<and> to_socket l = b) (links_new out (a, b) ls)
     = [\<lparr>from_node = fst out, from_socket = snd out, to_node = a, to_socket = b\<rparr>]"
  by (induction ls) (auto simp: links_new_def)

lemma links_new_elsewhere:
  "(a, b) \<noteq> inp \<Longrightarrow>
     filter (\<lambda>l. to_node l = a \<and> to_socket l = b) (links_new out inp ls)
       = filter (\<lambda>l. to_node l = a \<and> to_socket l = b) ls"
  by (induction ls) (auto simp: links_new_def)

lemma connect_texture_direct:
  assumes "k \<noteq> ''normal''" and "connect_texture m pn k ti tn = Some m2"
  shows "nodes m2 = nodes m"
    and "filter (\<lambda>l. to_node l = pn \<and> to_socket l = ti) (links m2)
           = [\<lparr>from_node = tn, from_socket = ''Color'', to_node = pn, to_socket = ti\<rparr>]"
  using assms links_new_into [of pn ti "(tn, ''Color'')" "links m"]
  by (auto simp: connect_texture_def split: if_splits)

lemma connect_texture_normal:
  assumes "connect_texture m pn ''normal'' ti tn = Some m2"
  shows "\<exists>nm. node_has_type (nodes m2) nm ''NORMAL_MAP''
           \<and> filter (\<lambda>l. to_node l = pn \<and> to_socket l = ''Normal'') (links m2)
               = [\<lparr>from_node = nm, from_socket = ''Normal'', to_node = pn, to_socket = ''Normal''\<rparr>]
           \<and> filter (\<lambda>l. to_node l = nm \<and> to_socket l = ''Color'') (links m2)
               = [\<lparr>from_node = tn, from_socket = ''Color'', to_node = nm, to_socket = ''Color''\<rparr>]"
proof -
  obtain m1 nm where e: "ensure_normal_map ''normal'' tn m = (m1, nm)"
    by (cases "ensure_normal_map ''normal'' tn m") auto
  have m2: "m2 = m1\<lparr>links := links_new (nm, ''Normal'') (pn, ''Normal'')
                        (links_new (tn, ''Color'') (nm, ''Color'') (links m1))\<rparr>"
    using assms e by (auto simp: connect_texture_def split: if_splits)
  have ty: "node_has_type (nodes m2) nm ''NORMAL_MAP''"
    using ensure_normal_map_props(1) [OF e] m2 by simp
  have l1: "filter (\<lambda>l. to_node l = pn \<and> to_socket l = ''Normal'') (links m2)
               = [\<lparr>from_node = nm, from_socket = ''Normal'', to_node = pn, to_socket = ''Normal''\<rparr>]"
    using links_new_into [of pn "''Normal''" "(nm, ''Normal'')"] by (simp add: m2)
  have ne: "(nm, ''Color'') \<noteq> (pn, ''Normal'')" by simp
  have l2: "filter (\<lambda>l. to_node l = nm \<and> to_socket l = ''Color'') (links m2)
               = [\<lparr>from_node = tn, from_socket = ''Color'', to_node = nm, to_socket = ''Color''\<rparr>]"
    using links_new_elsewhere [OF ne] links_new_into [of nm "''Color''" "(tn, ''Color'')"]
    by (simp add: m2)
  from ty l1 l2 show ?thesis by blast
qed

text \<open>
  Claim C10. A bind that reaches the file check with a path that does not exist returns
  False after the node tree was changed: a texture node is in place (a new one, appended,
  when no image texture node was linked to the target input), the target input is fed by
  it alone (for the normal texture the Normal input is fed by the Normal Map node alone,
  and that node's Color input by the texture node alone), whatever was linked there before.
  What the failed bind leaves out is the image: the nodes that were there keep their
  fields, new nodes hold no image, and the image collection is unchanged.
\<close>

theorem missing_file_after_rewiring:
  assumes "\<not> path_exists h path" and "use_nodes m"
    and "find_principled (nodes m) = Some pn"
    and "resolve_target_input k (nd_inputs (nodes m ! pn)) = Some ti"
  shows "\<exists>m2 tn. replace_texture_in_nodes h m imgs k path = ((m2, imgs), Some False)
           \<and> node_has_type (nodes m2) tn ''TEX_IMAGE''
           \<and> take (length (nodes m)) (nodes m2) = nodes m
           \<and> (\<forall>n \<in> set (drop (length (nodes m)) (nodes m2)). nd_image n = None)
           \<and> (connected_texture_node m pn ti = None \<longrightarrow>
                 tn = length (nodes m) \<and> length (nodes m) < length (nodes m2))
           \<and> (k \<noteq> ''normal'' \<longrightarrow>
                 filter (\<lambda>l. to_node l = pn \<and> to_socket l = ti) (links m2)
                   = [\<lparr>from_node = tn, from_socket = ''Color'', to_node = pn, to_socket = ti\<rparr>])
           \<and> (k = ''normal'' \<longrightarrow>
                 (\<exists>nm. node_has_type (nodes m2) nm ''NORMAL_MAP''
                    \<and> filter (\<lambda>l. to_node l = pn \<and> to_socket l = ''Normal'') (links m2)
                        = [\<lparr>from_node = nm, from_socket = ''Normal'', to_node = pn,
                             to_socket = ''Normal''\<rparr>]
                    \<and> filter (\<lambda>l. to_node l = nm \<and> to_socket l = ''Color'') (links m2)
                        = [\<lparr>from_node = tn, from_socket = ''Color'', to_node = nm,
                             to_socket = ''Color''\<rparr>]))"
proof -
  obtain m1 tn where e: "ensure_texture_node m pn k ti = (m1, tn)"
    by (cases "ensure_texture_node m pn k ti") auto
  have ti: "ti \<in> set (nd_inputs (nodes m ! pn))"
    using resolve_Some_key [OF assms(4)] by simp
  have pn: "pn < length (nodes m)"
    using first_index_SomeD [of _ "nodes m" pn] assms(3) by (simp add: find_principled_def)
  obtain x1 where x1: "nodes m1 = nodes m @ x1" "\<forall>n \<in> set x1. nd_image n = None"
    using ensure_texture_node_props(2) [OF e] by blast
  have "nodes m1 ! pn = nodes m ! pn"
    using x1 pn by (simp add: nth_append)
  then obtain m2 where c: "connect_texture m1 pn k ti tn = Some m2"
    using connect_texture_Some [of ti m1 pn k tn] ti by auto
  obtain x2 where x2: "nodes m2 = nodes m1 @ x2" "\<forall>n \<in> set x2. nd_image n = None"
    using connect_texture_props(1) [OF c] by blast
  have r: "replace_texture_in_nodes h m imgs k path = ((m2, imgs), Some False)"
    using assms e c by (simp add: replace_texture_in_nodes_def load_and_assign_missing)
  have tn: "node_has_type (nodes m2) tn ''TEX_IMAGE''"
    using sampler_after_wiring [OF e c] .
  have old: "take (length (nodes m)) (nodes m2) = nodes m"
    using x1 x2 by simp
  have new: "\<forall>n \<in> set (drop (length (nodes m)) (nodes m2)). nd_image n = None"
    using x1 x2 by auto
  have created: "connected_texture_node m pn ti = None \<longrightarrow>
                 tn = length (nodes m) \<and> length (nodes m) < length (nodes m2)"
  proof
    assume "connected_texture_node m pn ti = None"
    then have "new_texture_node k m = (m1, tn)"
      using ensure_texture_node_cases [OF e] by auto
    then show "tn = length (nodes m) \<and> length (nodes m) < length (nodes m2)"
      using new_texture_node_nodes [of k m m1 tn] x2 by auto
  qed
  have direct: "k \<noteq> ''normal'' \<longrightarrow>
                 filter (\<lambda>l. to_node l = pn \<and> to_socket l = ti) (links m2)
                   = [\<lparr>from_node = tn, from_socket = ''Color'', to_node = pn, to_socket = ti\<rparr>]"
    using connect_texture_direct(2) [OF _ c] by blast
  have normal: "k = ''normal'' \<longrightarrow>
                 (\<exists>nm. node_has_type (nodes m2) nm ''NORMAL_MAP''
                    \<and> filter (\<lambda>l. to_node l = pn \<and> to_socket l = ''Normal'') (links m2)
                        = [\<lparr>from_node = nm, from_socket = ''Normal'', to_node = pn,
                             to_socket = ''Normal''\<rparr>]
                    \<and> filter (\<lambda>l. to_node l = nm \<and> to_socket l = ''Color'') (links m2)
                        = [\<lparr>from_node = tn, from_socket = ''Color'', to_node = nm,
                             to_socket = ''Color''\<rparr>])"
  proof
    assume "k = ''normal''"
    then show "\<exists>nm. node_has_type (nodes m2) nm ''NORMAL_MAP''
                    \<and> filter (\<lambda>l. to_node l = pn \<and> to_socket l = ''Normal'') (links m2)
                        = [\<lparr>from_node = nm, from_socket = ''Normal'', to_node = pn,
                             to_socket = ''Normal''\<rparr>]
                    \<and> filter (\<lambda>l. to_node l = nm \<and> to_socket l = ''Color'') (links m2)
                        = [\<lparr>from_node = tn, from_socket = ''Color'', to_node = nm,
                             to_socket = ''Color''\<rparr>]"
      using connect_texture_normal [of m1 pn ti tn m2] c by simp
  qed
  show ?thesis
    by (intro exI [of _ m2] exI [of _ tn] conjI) (fact r tn old new created direct normal)+
qed

theorem missing_file_after_rewiring_witness:
  "\<not> path_exists studio_host ''/tmp/normal.png'' \<and> use_nodes curtain_material
   \<and> find_principled (nodes curtain_material) = Some 0
   \<and> resolve_target_input ''normal'' (nd_inputs (nodes curtain_material ! 0)) = Some ''Normal''
   \<and> connected_texture_node curtain_material 0 ''Normal'' = None
   \<and> (\<exists>m2 nm. replace_texture_in_nodes studio_host curtain_material [] ''normal'' ''/tmp/normal.png''
                  = ((m2, []), Some False)
          \<and> node_has_type (nodes m2) 2 ''TEX_IMAGE''
          \<and> node_has_type (nodes m2) nm ''NORMAL_MAP''
          \<and> length (nodes curtain_material) < length (nodes m2)
          \<and> filter (\<lambda>l. to_node l = 0 \<and> to_socket l = ''Normal'') (links m2)
               = [\<lparr>from_node = nm, from_socket = ''Normal'', to_node = 0, to_socket = ''Normal''\<rparr>]
          \<and> filter (\<lambda>l. to_node l = nm \<and> to_socket l = ''Color'') (links m2)
               = [\<lparr>from_node = 2, from_socket = ''Color'', to_node = nm, to_socket = ''Color''\<rparr>])"
proof -
  have h1: "\<not> path_exists studio_host ''/tmp/normal.png''"
    by (simp add: studio_host_def)
  have h2: "use_nodes curtain_material"
    by (simp add: curtain_material_def)
  have h3: "find_principled (nodes curtain_material) = Some 0"
    by (simp add: curtain_material_def find_principled_def principled_bsdf_def)
  have h4: "resolve_target_input ''normal'' (nd_inputs (nodes curtain_material ! 0)) = Some ''Normal''"
    by (simp add: curtain_material_def principled_bsdf_def resolve_target_input_def input_mapping_def)
  have h5: "connected_texture_node curtain_material 0 ''Normal'' = None"
    by (simp add: connected_texture_node_def curtain_material_def principled_bsdf_def)
  have len: "length (nodes curtain_material) = 2"
    by (simp add: curtain_material_def)
  obtain m2 tn where
    r: "replace_texture_in_nodes studio_host curtain_material [] ''normal'' ''/tmp/normal.png''
                  = ((m2, []), Some False)"
    and t: "node_has_type (nodes m2) tn ''TEX_IMAGE''"
    and tn: "tn = 2" and grow: "length (nodes curtain_material) < length (nodes m2)"
    and n: "\<exists>nm. node_has_type (nodes m2) nm ''NORMAL_MAP''
                    \<and> filter (\<lambda>l. to_node l = 0 \<and> to_socket l = ''Normal'') (links m2)
                        = [\<lparr>from_node = nm, from_socket = ''Normal'', to_node = 0,
                             to_socket = ''Normal''\<rparr>]
                    \<and> filter (\<lambda>l. to_node l = nm \<and> to_socket l = ''Color'') (links m2)
                        = [\<lparr>from_node = tn, from_socket = ''Color'', to_node = nm,
                             to_socket = ''Color''\<rparr>]"
    using missing_file_after_rewiring [OF h1 h2 h3 h4, of "[]"] h5 len by auto
  obtain nm where "node_has_type (nodes m2) nm ''NORMAL_MAP''"
    "filter (\<lambda>l. to_node l = 0 \<and> to_socket l = ''Normal'') (links m2)
               = [\<lparr>from_node = nm, from_socket = ''Normal'', to_node = 0, to_socket = ''Normal''\<rparr>]"
    "filter (\<lambda>l. to_node l = nm \<and> to_socket l = ''Color'') (links m2)
               = [\<lparr>from_node = 2, from_socket = ''Color'', to_node = nm, to_socket = ''Color''\<rparr>]"
    using n tn by auto
  then have "\<exists>m2 nm. replace_texture_in_nodes studio_host curtain_material [] ''normal'' ''/tmp/normal.png''
                  = ((m2, []), Some False)
          \<and> node_has_type (nodes m2) 2 ''TEX_IMAGE''
          \<and> node_has_type (nodes m2) nm ''NORMAL_MAP''
          \<and> length (nodes curtain_material) < length (nodes m2)
          \<and> filter (\<lambda>l. to_node l = 0 \<and> to_socket l = ''Normal'') (links m2)
               = [\<lparr>from_node = nm, from_socket = ''Normal'', to_node = 0, to_socket = ''Normal''\<rparr>]
          \<and> filter (\<lambda>l. to_node l = nm \<and> to_socket l = ''Color'') (links m2)
               = [\<lparr>from_node = 2, from_socket = ''Color'', to_node = nm, to_socket = ''Color''\<rparr>]"
    using r t tn grow by (intro exI [of _ m2] exI [of _ nm]) simp
  with h1 h2 h3 h4 h5 show ?thesis by (intro conjI)
qed

section \<open>One missing file among the four\<close>

lemma principled_kept:
  assumes "find_principled ns = Some pn"
    and "map nd_type ns' = map nd_type ns @ ts" and "map nd_inputs ns' = map nd_inputs ns @ us"
  shows "find_principled ns' = Some pn" and "nd_inputs (ns' ! pn) = nd_inputs (ns ! pn)"
proof -
  have fi: "first_index (\<lambda>t. t = ''BSDF_PRINCIPLED'') (map nd_type ns) = Some pn"
    using assms(1) first_index_map [of "\<lambda>t. t = ''BSDF_PRINCIPLED''" nd_type ns]
    by (simp add: find_principled_def)
  then have "first_index (\<lambda>t. t = ''BSDF_PRINCIPLED'') (map nd_type ns') = Some pn"
    by (simp add: assms(2) first_index_append_Some)
  then show "find_principled ns' = Some pn"
    using first_index_map [of "\<lambda>t. t = ''BSDF_PRINCIPLED''" nd_type ns']
    by (simp add: find_principled_def)
  have pn: "pn < length ns"
    using first_index_SomeD [OF fi] by simp
  have "length ns' = length ns + length us"
    using arg_cong [OF assms(3), of length] by simp
  then have "nd_inputs (ns' ! pn) = map nd_inputs ns' ! pn"
    using pn by simp
  also have "\<dots> = nd_inputs (ns ! pn)"
    using pn by (simp add: assms(3) nth_append)
  finally show "nd_inputs (ns' ! pn) = nd_inputs (ns ! pn)" .
qed

lemma wiring_shape:
  assumes "ensure_texture_node m pn k ti = (m1, tn)"
  shows "use_nodes m1 = use_nodes m"
    and "\<exists>ts. map nd_type (nodes m1) = map nd_type (nodes m) @ ts"
    and "\<exists>us. map nd_inputs (nodes m1) = map nd_inputs (nodes m) @ us"
  using ensure_texture_node_props(2,4) [OF assms] by auto

lemma connect_shape:
  assumes "connect_texture m pn k ti tn = Some m2"
  shows "use_nodes m2 = use_nodes m"
    and "\<exists>ts. map nd_type (nodes m2) = map nd_type (nodes m) @ ts"
    and "\<exists>us. map nd_inputs (nodes m2) = map nd_inputs (nodes m) @ us"
  using connect_texture_props [OF assms] by auto

lemma replace_shape:
  assumes "replace_texture_in_nodes h m imgs k path = ((m', imgs'), r)"
  shows "use_nodes m' = use_nodes m
         \<and> (\<exists>ts. map nd_type (nodes m') = map nd_type (nodes m) @ ts)
         \<and> (\<exists>us. map nd_inputs (nodes m') = map nd_inputs (nodes m) @ us)"
proof (cases "use_nodes m")
  case False
  then have "m' = m" using assms by (simp add: replace_texture_in_nodes_def)
  then show ?thesis by simp
next
  case un: True
  show ?thesis
  proof (cases "find_principled (nodes m)")
    case None
    then have "m' = m" using assms un by (simp add: replace_texture_in_nodes_def)
    then show ?thesis by simp
  next
    case (Some pn)
    show ?thesis
    proof (cases "resolve_target_input k (nd_inputs (nodes m ! pn))")
      case None
      then have "m' = m" using assms un Some by (simp add: replace_texture_in_nodes_def)
      then show ?thesis by simp
    next
      case ti: (Some ti)
      obtain m1 tn where e: "ensure_texture_node m pn k ti = (m1, tn)"
        by (cases "ensure_texture_node m pn k ti") auto
      note s1 = wiring_shape [OF e]
      show ?thesis
      proof (cases "connect_texture m1 pn k ti tn")
        case None
        then have "m' = m1"
          using assms un Some ti e by (simp add: replace_texture_in_nodes_def)
        then show ?thesis using s1 by simp
      next
        case c: (Some m2)
        note s2 = connect_shape [OF c]
        obtain m3 imgs3 ok where l: "load_and_assign h m2 imgs tn k path = ((m3, imgs3), ok)"
          by (cases "load_and_assign h m2 imgs tn k path") auto
        then have "m' = m3"
          using assms un Some ti e c by (simp add: replace_texture_in_nodes_def)
        moreover note s3 = load_and_assign_nodes(1,2,4) [OF l]
        ultimately show ?thesis using s1 s2 s3 by auto
      qed
    qed
  qed
qed

lemma replace_bindable:
  assumes "bindable m pn inps" and "replace_texture_in_nodes h m imgs k path = ((m', imgs'), r)"
  shows "bindable m' pn inps"
proof -
  obtain ts us where "use_nodes m' = use_nodes m"
    and t: "map nd_type (nodes m') = map nd_type (nodes m) @ ts"
    and u: "map nd_inputs (nodes m') = map nd_inputs (nodes m) @ us"
    using replace_shape [OF assms(2)] by blast
  moreover have "find_principled (nodes m) = Some pn"
    using assms(1) by (simp add: bindable_def)
  ultimately show ?thesis
    using assms(1) principled_kept [OF _ t u] by (simp add: bindable_def)
qed

lemma load_and_assign_ok:
  assumes "path_exists h path" and "load_ok h path"
    and "''sRGB'' \<in> set (colorspaces h)" and "''Non-Color'' \<in> set (colorspaces h)"
  shows "snd (load_and_assign h m imgs tn k path) = True"
  using assms by (simp add: load_and_assign_def Let_def split: option.splits)

lemma replace_succeeds:
  assumes "bindable m pn inps" and "resolve_target_input k inps = Some ti"
    and "path_exists h path" and "load_ok h path"
    and "''sRGB'' \<in> set (colorspaces h)" and "''Non-Color'' \<in> set (colorspaces h)"
  shows "snd (replace_texture_in_nodes h m imgs k path) = Some True"
proof -
  have un: "use_nodes m" and fp: "find_principled (nodes m) = Some pn"
    and ti: "resolve_target_input k (nd_inputs (nodes m ! pn)) = Some ti"
    using assms(1,2) by (simp_all add: bindable_def)
  obtain m' imgs' r where r: "replace_texture_in_nodes h m imgs k path = ((m', imgs'), r)"
    by (cases "replace_texture_in_nodes h m imgs k path") auto
  obtain m1 tn m2 ok where e: "ensure_texture_node m pn k ti = (m1, tn)"
    and c: "connect_texture m1 pn k ti tn = Some m2"
    and l: "load_and_assign h m2 imgs tn k path = ((m', imgs'), ok)"
    using replace_wired [OF un fp ti r] by blast
  have "ok" using load_and_assign_ok [OF assms(3-6), of m2 imgs tn k] l by simp
  then show ?thesis
    using un fp ti e c l by (simp add: replace_texture_in_nodes_def)
qed

lemma replace_missing:
  assumes "\<not> path_exists h path"
  shows "snd (replace_texture_in_nodes h m imgs k path) \<noteq> Some True"
  using assms
  by (auto simp: replace_texture_in_nodes_def load_and_assign_missing Let_def
      split: option.splits prod.splits)

lemma replace_missing_False:
  assumes "bindable m pn inps" and "resolve_target_input k inps = Some ti"
    and "\<not> path_exists h path"
  shows "snd (replace_texture_in_nodes h m imgs k path) = Some False"
proof -
  have un: "use_nodes m" and fp: "find_principled (nodes m) = Some pn"
    and ti: "resolve_target_input k (nd_inputs (nodes m ! pn)) = Some ti"
    using assms(1,2) by (simp_all add: bindable_def)
  obtain m' imgs' r where r: "replace_texture_in_nodes h m imgs k path = ((m', imgs'), r)"
    by (cases "replace_texture_in_nodes h m imgs k path") auto
  obtain m1 tn m2 ok where e: "ensure_texture_node m pn k ti = (m1, tn)"
    and c: "connect_texture m1 pn k ti tn = Some m2"
    using replace_wired [OF un fp ti r] by blast
  show ?thesis
    using un fp ti e c load_and_assign_missing [OF assms(3)]
    by (simp add: replace_texture_in_nodes_def)
qed

text \<open>
  The outcome of one bind of the loop, on a material the binder can work on: False for the
  texture type whose file is missing, True for a type whose file is there.
\<close>

lemma bind_outcome:
  assumes "bindable m pn inps" and "resolve_target_input k inps \<noteq> None"
    and "k = bad \<longrightarrow> \<not> path_exists h p"
    and "k \<noteq> bad \<longrightarrow> path_exists h p \<and> load_ok h p"
    and "''sRGB'' \<in> set (colorspaces h)" and "''Non-Color'' \<in> set (colorspaces h)"
  shows "\<exists>m' imgs'. replace_texture_in_nodes h m imgs k p = ((m', imgs'), Some (k \<noteq> bad))
           \<and> bindable m' pn inps"
proof -
  obtain ti where ti: "resolve_target_input k inps = Some ti"
    using assms(2) by auto
  obtain m' imgs' r where r: "replace_texture_in_nodes h m imgs k p = ((m', imgs'), r)"
    by (cases "replace_texture_in_nodes h m imgs k p") auto
  have "r = Some (k \<noteq> bad)"
  proof (cases "k = bad")
    case True
    then have "\<not> path_exists h p" using assms(3) by simp
    from replace_missing_False [OF assms(1) ti this, of imgs] r True show ?thesis by simp
  next
    case False
    then have "path_exists h p" "load_ok h p" using assms(4) by simp_all
    from replace_succeeds [OF assms(1) ti this assms(5,6), of imgs] r False show ?thesis by simp
  qed
  then show ?thesis
    using r replace_bindable [OF assms(1) r] by simp
qed

text \<open>
  Claim C8. A bind whose file does not exist never returns True. On a material the binder
  can work on, whose shader has an input for each of the four texture types, with one
  type's file missing, the other three files present and loadable and the two color space
  names known to the color configuration, the loop over the four types calls the binder
  once for each type, in order, each call on the material and images the call before left:
  the call for the type with the missing file returns False, the three other calls return
  True. The loop ends with the scene those four calls made, four more attempts and three
  more successes.
\<close>

theorem one_missing_file_three_of_four:
  assumes "bindable (materials d mat) pn inps"
    and "\<forall>k \<in> set [''diffuse'', ''normal'', ''roughness'', ''specular''].
           resolve_target_input k inps \<noteq> None"
    and "(bad, badp) \<in> set (texture_paths dp np rp sp)"
    and "\<not> path_exists h badp"
    and "\<forall>(k, p) \<in> set (texture_paths dp np rp sp). k \<noteq> bad \<longrightarrow> path_exists h p \<and> load_ok h p"
    and "''sRGB'' \<in> set (colorspaces h)" and "''Non-Color'' \<in> set (colorspaces h)"
  shows "snd (replace_texture_in_nodes h m imgs bad badp) \<noteq> Some True
         \<and> (\<exists>m1 i1 m2 i2 m3 i3 m4 i4.
               replace_texture_in_nodes h (materials d mat) (images d) ''diffuse'' dp
                 = ((m1, i1), Some (''diffuse'' \<noteq> bad))
             \<and> replace_texture_in_nodes h m1 i1 ''normal'' np
                 = ((m2, i2), Some (''normal'' \<noteq> bad))
             \<and> replace_texture_in_nodes h m2 i2 ''roughness'' rp
                 = ((m3, i3), Some (''roughness'' \<noteq> bad))
             \<and> replace_texture_in_nodes h m3 i3 ''specular'' sp
                 = ((m4, i4), Some (''specular'' \<noteq> bad))
             \<and> apply_tex_keys h mat (texture_paths dp np rp sp) (d, s, t)
                 = (d\<lparr>materials := (materials d)(mat := m4), images := i4\<rparr>, s + 3, t + 4))"
proof -
  have one: "snd (replace_texture_in_nodes h m imgs bad badp) \<noteq> Some True"
    using replace_missing [OF assms(4)] .
  have res: "resolve_target_input ''diffuse'' inps \<noteq> None"
    "resolve_target_input ''normal'' inps \<noteq> None"
    "resolve_target_input ''roughness'' inps \<noteq> None"
    "resolve_target_input ''specular'' inps \<noteq> None"
    using assms(2) by simp_all
  have miss: "''diffuse'' = bad \<longrightarrow> \<not> path_exists h dp"
    "''normal'' = bad \<longrightarrow> \<not> path_exists h np"
    "''roughness'' = bad \<longrightarrow> \<not> path_exists h rp"
    "''specular'' = bad \<longrightarrow> \<not> path_exists h sp"
    using assms(3,4) by (auto simp: texture_paths_def)
  have there: "''diffuse'' \<noteq> bad \<longrightarrow> path_exists h dp \<and> load_ok h dp"
    "''normal'' \<noteq> bad \<longrightarrow> path_exists h np \<and> load_ok h np"
    "''roughness'' \<noteq> bad \<longrightarrow> path_exists h rp \<and> load_ok h rp"
    "''specular'' \<noteq> bad \<longrightarrow> path_exists h sp \<and> load_ok h sp"
    using assms(5) by (auto simp: texture_paths_def)
  obtain m1 i1 where
    r1: "replace_texture_in_nodes h (materials d mat) (images d) ''diffuse'' dp
           = ((m1, i1), Some (''diffuse'' \<noteq> bad))"
    and b1: "bindable m1 pn inps"
    using bind_outcome [OF assms(1) res(1) miss(1) there(1) assms(6,7), of "images d"] by blast
  obtain m2 i2 where
    r2: "replace_texture_in_nodes h m1 i1 ''normal'' np = ((m2, i2), Some (''normal'' \<noteq> bad))"
    and b2: "bindable m2 pn inps"
    using bind_outcome [OF b1 res(2) miss(2) there(2) assms(6,7), of i1] by blast
  obtain m3 i3 where
    r3: "replace_texture_in_nodes h m2 i2 ''roughness'' rp
           = ((m3, i3), Some (''roughness'' \<noteq> bad))"
    and b3: "bindable m3 pn inps"
    using bind_outcome [OF b2 res(3) miss(3) there(3) assms(6,7), of i2] by blast
  obtain m4 i4 where
    r4: "replace_texture_in_nodes h m3 i3 ''specular'' sp
           = ((m4, i4), Some (''specular'' \<noteq> bad))"
    using bind_outcome [OF b3 res(4) miss(4) there(4) assms(6,7), of i3] by blast
  have bad: "bad = ''diffuse'' \<or> bad = ''normal'' \<or> bad = ''roughness'' \<or> bad = ''specular''"
    using assms(3) by (auto simp: texture_paths_def)
  have count: "(if ''diffuse'' \<noteq> bad then 1 else 0) + (if ''normal'' \<noteq> bad then 1 else 0)
                 + (if ''roughness'' \<noteq> bad then 1 else 0)
                 + (if ''specular'' \<noteq> bad then 1 else (0::nat)) = 3"
    using bad by auto
  have walk: "apply_tex_keys h mat (texture_paths dp np rp sp) (d, s, t)
                 = (d\<lparr>materials := (materials d)(mat := m4), images := i4\<rparr>,
                    s + ((if ''diffuse'' \<noteq> bad then 1 else 0) + (if ''normal'' \<noteq> bad then 1 else 0)
                         + (if ''roughness'' \<noteq> bad then 1 else 0)
                         + (if ''specular'' \<noteq> bad then 1 else 0)), t + 4)"
    using r1 r2 r3 r4 by (simp add: texture_paths_def)
  have walk3: "apply_tex_keys h mat (texture_paths dp np rp sp) (d, s, t)
                 = (d\<lparr>materials := (materials d)(mat := m4), images := i4\<rparr>, s + 3, t + 4)"
    using walk count by simp
  show ?thesis
    by (intro conjI exI [of _ m1] exI [of _ i1] exI [of _ m2] exI [of _ i2]
          exI [of _ m3] exI [of _ i3] exI [of _ m4] exI [of _ i4])
       (fact one r1 r2 r3 r4 walk3)+
qed

theorem one_missing_file_three_of_four_witness:
  "bindable (materials curtain_scene 0) 0 (nd_inputs principled_bsdf)
   \<and> \<not> path_exists studio_host ''/tmp/normal.png''
   \<and> (\<exists>m1 i1 m2 i2 m3 i3 m4 i4.
          replace_texture_in_nodes studio_host (materials curtain_scene 0) (images curtain_scene)
              ''diffuse'' ''/tmp/diffuse.png'' = ((m1, i1), Some True)
        \<and> replace_texture_in_nodes studio_host m1 i1 ''normal'' ''/tmp/normal.png''
            = ((m2, i2), Some False)
        \<and> replace_texture_in_nodes studio_host m2 i2 ''roughness'' ''/tmp/roughness.png''
            = ((m3, i3), Some True)
        \<and> replace_texture_in_nodes studio_host m3 i3 ''specular'' ''/tmp/specular.png''
            = ((m4, i4), Some True)
        \<and> apply_tex_keys studio_host 0
              (texture_paths ''/tmp/diffuse.png'' ''/tmp/normal.png'' ''/tmp/roughness.png''
                 ''/tmp/specular.png'') (curtain_scene, 0, 0)
            = (curtain_scene\<lparr>materials := (materials curtain_scene)(0 := m4), images := i4\<rparr>,
               3, 4))"
proof -
  have h1: "bindable (materials curtain_scene 0) 0 (nd_inputs principled_bsdf)"
    by (simp add: bindable_def curtain_scene_def curtain_material_def find_principled_def
        principled_bsdf_def)
  have h2: "\<forall>k \<in> set [''diffuse'', ''normal'', ''roughness'', ''specular''].
           resolve_target_input k (nd_inputs principled_bsdf) \<noteq> None"
    by (simp add: resolve_target_input_def input_mapping_def principled_bsdf_def)
  have h3: "(''normal'', ''/tmp/normal.png'')
              \<in> set (texture_paths ''/tmp/diffuse.png'' ''/tmp/normal.png'' ''/tmp/roughness.png''
                  ''/tmp/specular.png'')"
    by (simp add: texture_paths_def)
  have h4: "\<not> path_exists studio_host ''/tmp/normal.png''"
    by (simp add: studio_host_def)
  have h5: "\<forall>(k, p) \<in> set (texture_paths ''/tmp/diffuse.png'' ''/tmp/normal.png''
                  ''/tmp/roughness.png'' ''/tmp/specular.png'').
              k \<noteq> ''normal'' \<longrightarrow> path_exists studio_host p \<and> load_ok studio_host p"
    by (simp add: texture_paths_def studio_host_def)
  have h6: "''sRGB'' \<in> set (colorspaces studio_host)"
    by (simp add: studio_host_def)
  have h7: "''Non-Color'' \<in> set (colorspaces studio_host)"
    by (simp add: studio_host_def)
  have "\<exists>m1 i1 m2 i2 m3 i3 m4 i4.
          replace_texture_in_nodes studio_host (materials curtain_scene 0) (images curtain_scene)
              ''diffuse'' ''/tmp/diffuse.png'' = ((m1, i1), Some True)
        \<and> replace_texture_in_nodes studio_host m1 i1 ''normal'' ''/tmp/normal.png''
            = ((m2, i2), Some False)
        \<and> replace_texture_in_nodes studio_host m2 i2 ''roughness'' ''/tmp/roughness.png''
            = ((m3, i3), Some True)
        \<and> replace_texture_in_nodes studio_host m3 i3 ''specular'' ''/tmp/specular.png''
            = ((m4, i4), Some True)
        \<and> apply_tex_keys studio_host 0
              (texture_paths ''/tmp/diffuse.png'' ''/tmp/normal.png'' ''/tmp/roughness.png''
                 ''/tmp/specular.png'') (curtain_scene, 0, 0)
            = (curtain_scene\<lparr>materials := (materials curtain_scene)(0 := m4), images := i4\<rparr>,
               3, 4)"
    using one_missing_file_three_of_four [OF h1 h2 h3 h4 h5 h6 h7, of curtain_material "[]" 0 0]
    by simp
  with h1 h4 show ?thesis by (intro conjI)
qed

text \<open>
  The other way a bind fails after its file was found: on a host whose color configuration
  has no Non-Color, the roughness bind loads the image, puts it on the texture node and
  returns False, the image keeping the color space it was loaded with.
\<close>

lemma refused_colorspace_after_load:
  "replace_texture_in_nodes plain_color_host curtain_material [] ''roughness'' ''/tmp/roughness.png''
     = ((curtain_material
           \<lparr>nodes := nodes curtain_material @
              [\<lparr>nd_type = ''TEX_IMAGE'', nd_name = ''roughness_texture'',
                nd_location = (- 400, - 150), nd_inputs = [''Vector''], nd_image = Some 0\<rparr>],
            links := links curtain_material @
              [\<lparr>from_node = 2, from_socket = ''Color'', to_node = 0, to_socket = ''Roughness''\<rparr>]\<rparr>,
         [\<lparr>filepath = ''/tmp/roughness.png'', colorspace = ''sRGB''\<rparr>]),
        Some False)"
  by code_simp

section \<open>Binding the same texture twice\<close>

text \<open>
  Claim C1, at the normal texture. On the example material the first bind of the normal
  texture appends an image texture node and a Normal Map node. The second bind, with the
  same file, finds the Normal input fed by the Normal Map node, which is not an image
  texture node, and appends a second image texture node: five nodes instead of four, two
  of them image texture nodes, and one Normal Map node.
\<close>

theorem normal_rebind_second_sampler:
  "(let ((m1, imgs1), r1) =
          replace_texture_in_nodes render_host curtain_material [] ''normal'' ''/tmp/normal.png'';
        ((m2, imgs2), r2) =
          replace_texture_in_nodes render_host m1 imgs1 ''normal'' ''/tmp/normal.png''
    in r1 = Some True \<and> r2 = Some True
       \<and> map nd_type (nodes m1) = [''BSDF_PRINCIPLED'', ''OUTPUT_MATERIAL'', ''TEX_IMAGE'', ''NORMAL_MAP'']
       \<and> map nd_type (nodes m2)
            = [''BSDF_PRINCIPLED'', ''OUTPUT_MATERIAL'', ''TEX_IMAGE'', ''NORMAL_MAP'', ''TEX_IMAGE'']
       \<and> length (nodes m2) = length (nodes m1) + 1)"
  by code_simp

subsection \<open>The general pattern\<close>

lemma node_has_type_map:
  "node_has_type ns i ty \<longleftrightarrow> i < length (map nd_type ns) \<and> map nd_type ns ! i = ty"
  by (auto simp: node_has_type_def)

lemma node_has_type_cong:
  "map nd_type ns' = map nd_type ns \<Longrightarrow> node_has_type ns' i ty = node_has_type ns i ty"
  by (simp add: node_has_type_map)

lemma load_and_assign_length:
  assumes "load_and_assign h m imgs tn k path = ((m', imgs'), ok)"
  shows "length (nodes m') = length (nodes m)"
  using arg_cong [OF load_and_assign_nodes(1) [OF assms], of length] by simp

text \<open>
  For the three texture types that are linked directly, a second bind finds the texture
  node of the first one: the node count stays.
\<close>

lemma direct_rebind_keeps_nodes:
  assumes "k \<noteq> ''normal''"
    and "replace_texture_in_nodes h m imgs k path = ((m', imgs'), r)"
    and "replace_texture_in_nodes h' m' imgs' k path' = ((m'', imgs''), r')"
  shows "length (nodes m'') = length (nodes m')"
proof (cases "use_nodes m \<and> (\<exists>pn ti. find_principled (nodes m) = Some pn
                 \<and> resolve_target_input k (nd_inputs (nodes m ! pn)) = Some ti)")
  case False
  then have exit: "\<not> use_nodes m \<or> find_principled (nodes m) = None
           \<or> (\<exists>pn. find_principled (nodes m) = Some pn
                 \<and> resolve_target_input k (nd_inputs (nodes m ! pn)) = None)"
    by (cases "find_principled (nodes m)") auto
  have "m' = m"
    using replace_early_exit [OF exit, of h imgs path] assms(2) by simp
  then have "m'' = m'"
    using replace_early_exit [OF exit, of h' imgs' path'] assms(3) by simp
  then show ?thesis by simp
next
  case True
  then obtain pn ti where un: "use_nodes m" and fp: "find_principled (nodes m) = Some pn"
    and ti: "resolve_target_input k (nd_inputs (nodes m ! pn)) = Some ti"
    by blast
  obtain m1 tn m2 ok where e: "ensure_texture_node m pn k ti = (m1, tn)"
    and c: "connect_texture m1 pn k ti tn = Some m2"
    and l: "load_and_assign h m2 imgs tn k path = ((m', imgs'), ok)"
    using replace_wired [OF un fp ti assms(2)] by blast
  have b: "bindable m pn (nd_inputs (nodes m ! pn))"
    using un fp by (simp add: bindable_def)
  have b': "bindable m' pn (nd_inputs (nodes m ! pn))"
    using replace_bindable [OF b assms(2)] .
  then have un': "use_nodes m'" and fp': "find_principled (nodes m') = Some pn"
    and ti': "resolve_target_input k (nd_inputs (nodes m' ! pn)) = Some ti"
    using ti by (simp_all add: bindable_def)
  have tin: "ti \<in> set (nd_inputs (nodes m' ! pn))"
    using resolve_Some_key [OF ti'] by simp
  have "node_has_type (nodes m2) tn ''TEX_IMAGE''"
    using sampler_after_wiring [OF e c] .
  then have ty: "node_has_type (nodes m') tn ''TEX_IMAGE''"
    using node_has_type_cong [OF load_and_assign_nodes(1) [OF l]] by simp
  have "filter (\<lambda>l. to_node l = pn \<and> to_socket l = ti) (links m')
          = [\<lparr>from_node = tn, from_socket = ''Color'', to_node = pn, to_socket = ti\<rparr>]"
    using connect_texture_direct(2) [OF assms(1) c] load_and_assign_nodes(5) [OF l] by simp
  then have found: "connected_texture_node m' pn ti = Some tn"
    using tin ty by (simp add: connected_texture_node_def)
  obtain m1' tn' m2' ok' where e': "ensure_texture_node m' pn k ti = (m1', tn')"
    and c': "connect_texture m1' pn k ti tn' = Some m2'"
    and l': "load_and_assign h' m2' imgs' tn' k path' = ((m'', imgs''), ok')"
    using replace_wired [OF un' fp' ti' assms(3)] by blast
  have "m1' = m'"
    using e' found by (simp add: ensure_texture_node_def)
  moreover have "nodes m2' = nodes m1'"
    using connect_texture_direct(1) [OF assms(1) c'] .
  ultimately show ?thesis
    using load_and_assign_length [OF l'] by simp
qed

text \<open>
  For the normal texture the second bind finds the Normal Map node of the first one, and
  not its texture node: whenever the shader has a Normal input, one node is added.
\<close>

lemma ensure_normal_map_named:
  assumes "ensure_normal_map ''normal'' tn m = (m1, nm)"
  shows "find_normal_map ''normal'' (nodes m1) \<noteq> None"
proof (cases "find_normal_map ''normal'' (nodes m)")
  case (Some i)
  then show ?thesis using assms by (auto simp: ensure_normal_map_def)
next
  case None
  then have "new_normal_map ''normal'' tn m = (m1, nm)"
    using assms by (simp add: ensure_normal_map_def)
  then obtain n where n: "nodes m1 = nodes m @ [n]" "nd_type n = ''NORMAL_MAP''"
    "nd_name n = ''normal'' @ ''_normal_map''"
    using new_normal_map_nodes [of "''normal''" tn m m1 nm] by blast
  then show ?thesis
    using None by (simp add: find_normal_map_def first_index_append_None startswith_def)
qed

lemma first_index_cong_all2:
  "list_all2 (\<lambda>x y. P x = P y) xs ys \<Longrightarrow> first_index P xs = first_index P ys"
  by (induction rule: list_all2_induct) auto

lemma map_eq_nth: "map f xs = map f ys \<Longrightarrow> i < length xs \<Longrightarrow> f (xs ! i) = f (ys ! i)"
  by (metis length_map nth_map)

lemma find_normal_map_cong:
  assumes "map nd_type ns' = map nd_type ns" and "map nd_name ns' = map nd_name ns"
  shows "find_normal_map k ns' = find_normal_map k ns"
proof -
  have len: "length ns' = length ns"
    using arg_cong [OF assms(1), of length] by simp
  have "list_all2 (\<lambda>x y. (nd_type x = ''NORMAL_MAP'' \<and> startswith (nd_name x) (k @ ''_''))
                         = (nd_type y = ''NORMAL_MAP'' \<and> startswith (nd_name y) (k @ ''_''))) ns' ns"
    using len map_eq_nth [OF assms(1)] map_eq_nth [OF assms(2)]
    by (simp add: list_all2_conv_all_nth)
  then show ?thesis
    unfolding find_normal_map_def by (rule first_index_cong_all2)
qed

lemma normal_rebind_adds_node:
  assumes "use_nodes m" and "find_principled (nodes m) = Some pn"
    and "''Normal'' \<in> set (nd_inputs (nodes m ! pn))"
    and "replace_texture_in_nodes h m imgs ''normal'' path = ((m', imgs'), r)"
    and "replace_texture_in_nodes h' m' imgs' ''normal'' path' = ((m'', imgs''), r')"
  shows "length (nodes m'') = length (nodes m') + 1"
proof -
  have ti: "resolve_target_input ''normal'' (nd_inputs (nodes m ! pn)) = Some ''Normal''"
    using assms(3) by (simp add: resolve_target_input_def input_mapping_def)
  obtain m1 tn m2 ok where e: "ensure_texture_node m pn ''normal'' ''Normal'' = (m1, tn)"
    and c: "connect_texture m1 pn ''normal'' ''Normal'' tn = Some m2"
    and l: "load_and_assign h m2 imgs tn ''normal'' path = ((m', imgs'), ok)"
    using replace_wired [OF assms(1,2) ti assms(4)] by blast
  have b: "bindable m pn (nd_inputs (nodes m ! pn))"
    using assms(1,2) by (simp add: bindable_def)
  have b': "bindable m' pn (nd_inputs (nodes m ! pn))"
    using replace_bindable [OF b assms(4)] .
  then have un': "use_nodes m'" and fp': "find_principled (nodes m') = Some pn"
    and ti': "resolve_target_input ''normal'' (nd_inputs (nodes m' ! pn)) = Some ''Normal''"
    using ti by (simp_all add: bindable_def)
  obtain nm where nm: "node_has_type (nodes m2) nm ''NORMAL_MAP''"
    and into: "filter (\<lambda>l. to_node l = pn \<and> to_socket l = ''Normal'') (links m2)
               = [\<lparr>from_node = nm, from_socket = ''Normal'', to_node = pn, to_socket = ''Normal''\<rparr>]"
    using connect_texture_normal [OF c] by blast
  have "node_has_type (nodes m') nm ''NORMAL_MAP''"
    using nm node_has_type_cong [OF load_and_assign_nodes(1) [OF l]] by simp
  then have "\<not> node_has_type (nodes m') nm ''TEX_IMAGE''"
    by (simp add: node_has_type_def)
  then have none: "connected_texture_node m' pn ''Normal'' = None"
    using into load_and_assign_nodes(5) [OF l] by (simp add: connected_texture_node_def)
  obtain m1a nma where ea: "ensure_normal_map ''normal'' tn m1 = (m1a, nma)"
    by (cases "ensure_normal_map ''normal'' tn m1") auto
  have "nodes m2 = nodes m1a"
    using c ea by (auto simp: connect_texture_def split: if_splits)
  then have "find_normal_map ''normal'' (nodes m2) \<noteq> None"
    using ensure_normal_map_named [OF ea] by simp
  then have named: "find_normal_map ''normal'' (nodes m') \<noteq> None"
    using find_normal_map_cong [OF load_and_assign_nodes(1,3) [OF l]] by simp
  obtain m1' tn' m2' ok' where e': "ensure_texture_node m' pn ''normal'' ''Normal'' = (m1', tn')"
    and c': "connect_texture m1' pn ''normal'' ''Normal'' tn' = Some m2'"
    and l': "load_and_assign h' m2' imgs' tn' ''normal'' path' = ((m'', imgs''), ok')"
    using replace_wired [OF un' fp' ti' assms(5)] by blast
  have "new_texture_node ''normal'' m' = (m1', tn')"
    using e' none by (simp add: ensure_texture_node_def)
  then obtain x where x: "nodes m1' = nodes m' @ [x]"
    using new_texture_node_nodes [of "''normal''" m' m1' tn'] by blast
  obtain i where "find_normal_map ''normal'' (nodes m') = Some i"
    using named by auto
  then have "find_normal_map ''normal'' (nodes m1') = Some i"
    by (simp add: find_normal_map_def x first_index_append_Some)
  then have "nodes m2' = nodes m1'"
    using c' by (auto simp: connect_texture_def ensure_normal_map_def split: if_splits)
  then show ?thesis
    using load_and_assign_length [OF l'] x by simp
qed

end
